theory Spec2Isabelle
  imports Complex_Main "HOL-Library.Word" "HOL-Library.AList"
begin

section \<open>Go values: machine integers, slices, errors\<close>

text \<open>
  Go's \<^verbatim>\<open>int\<close> is a 64-bit two's-complement integer on the platforms the nodes are built for.
  It is modelled as a mathematical integer with the wrap-around written out: every
  arithmetic result passes through \<open>int64\<close>. Division truncates towards zero and panics on a
  zero divisor. Slicing and indexing panic out of range. A panic and a returned \<^verbatim>\<open>error\<close> are
  both values of \<open>go_error\<close>.
\<close>

datatype go_error =
    PanicDivideByZero
  | PanicSliceBounds
  | PanicIndexOutOfRange
  | PanicNilDereference
  | PanicNonPositiveInterval
  | ErrInvalidKeySize
  | ErrUnexpectedEOF
  | ErrCiphertextTooShort
  | ErrAuthenticationFailed
  | ErrRequestCreation
  | ErrRequest
  | ErrMissingChunk int
  | ErrTimeout
  | ErrWrapped string go_error

type_synonym byte = "8 word"

definition int64 :: "int \<Rightarrow> int" where
  "int64 x = (x + 2 ^ 63) mod 2 ^ 64 - 2 ^ 63"

definition go_add :: "int \<Rightarrow> int \<Rightarrow> int" where
  "go_add a b = int64 (a + b)"

definition go_sub :: "int \<Rightarrow> int \<Rightarrow> int" where
  "go_sub a b = int64 (a - b)"

definition go_mul :: "int \<Rightarrow> int \<Rightarrow> int" where
  "go_mul a b = int64 (a * b)"

definition go_quo :: "int \<Rightarrow> int \<Rightarrow> go_error + int" where
  "go_quo a b =
     (if b = 0 then Inl PanicDivideByZero
      else Inr (int64 (sgn a * sgn b * (\<bar>a\<bar> div \<bar>b\<bar>))))"

definition go_rem :: "int \<Rightarrow> int \<Rightarrow> go_error + int" where
  "go_rem a b =
     (if b = 0 then Inl PanicDivideByZero
      else Inr (int64 (sgn a * (\<bar>a\<bar> mod \<bar>b\<bar>))))"

definition len :: "'a list \<Rightarrow> int" where
  "len xs = int (length xs)"

text \<open>
  \<^verbatim>\<open>xs[lo:hi]\<close>. Go checks \<open>hi\<close> against the capacity; every slice expression of the nodes
  clamps \<open>hi\<close> to the length first, so the check against the length decides the same inputs.
\<close>

definition go_slice :: "'a list \<Rightarrow> int \<Rightarrow> int \<Rightarrow> go_error + 'a list" where
  "go_slice xs lo hi =
     (if 0 \<le> lo \<and> lo \<le> hi \<and> hi \<le> len xs
      then Inr (take (nat (hi - lo)) (drop (nat lo) xs))
      else Inl PanicSliceBounds)"

definition go_index :: "'a list \<Rightarrow> int \<Rightarrow> go_error + 'a" where
  "go_index xs i =
     (if 0 \<le> i \<and> i < len xs then Inr (xs ! nat i) else Inl PanicIndexOutOfRange)"

text \<open>
  \<^verbatim>\<open>for i := i0; i < n; i++ { body }\<close> where the body either leaves the function (a returned
  error or a panic) or contributes one effect. The result is the effects so far and how the
  loop ended. \<open>i + 1\<close> cannot overflow: \<open>i < n\<close> and \<open>n\<close> is an \<^verbatim>\<open>int\<close>.
\<close>

function forLoop ::
  "(int \<Rightarrow> go_error + 'a) \<Rightarrow> int \<Rightarrow> int \<Rightarrow> 'a list \<Rightarrow> 'a list \<times> go_error option" where
  "forLoop body n i acc =
     (if i < n
      then (case body i of
              Inl e \<Rightarrow> (acc, Some e)
            | Inr x \<Rightarrow> forLoop body n (i + 1) (acc @ [x]))
      else (acc, None))"
  by pat_completeness auto
termination
  by (relation "measure (\<lambda>(body, n, i, acc). nat (n - i))") auto

declare forLoop.simps [simp del]

text \<open>\<^verbatim>\<open>%d\<close> of \<^verbatim>\<open>fmt.Sprintf\<close>.\<close>

fun digits10 :: "nat \<Rightarrow> string" where
  "digits10 n =
     (if n < 10 then [''0123456789'' ! n]
      else digits10 (n div 10) @ [''0123456789'' ! (n mod 10)])"

declare digits10.simps [simp del]

definition Itoa :: "int \<Rightarrow> string" where
  "Itoa i = (if i < 0 then CHR ''-'' # digits10 (nat (- i)) else digits10 (nat i))"

section \<open>The common package\<close>

text \<open>
  A Go map that the code ranges over (\<open>Headers\<close>) is an association list with
  \<open>AList.update\<close> for assignment; a map the code only indexes and counts (\<open>Chunks\<close>, the
  session tables) is a partial function, its \<^verbatim>\<open>len\<close> the cardinality of its domain.
  Times are integers (nanoseconds of the node's clock).
\<close>

type_synonym header_map = "(string \<times> string) list"

record Chunk =
  SessionID :: string
  SequenceNum :: int
  TotalChunks :: int
  Data :: "byte list"
  Timestamp :: int
  SourceClient :: string
  TargetURL :: string
  Method :: string
  Headers :: header_map

record ObfuscationConfig =
  Type :: string
  Headers :: header_map
  Padding :: bool
  Jitter :: int

record EncryptionConfig =
  Enabled :: bool
  Algorithm :: string
  Mode :: string

record Session =
  SessionID :: string
  Chunks :: "int \<rightharpoonup> Chunk"
  TotalChunks :: int
  ReceivedAt :: int
  TargetURL :: string
  Method :: string
  Headers :: header_map

text \<open>
  AES-GCM itself is the Go standard library's. The functions of the common package are
  modelled over the primitive, taken as a parameter: \<open>Seal g key nonce plaintext\<close> is the
  ciphertext followed by the tag, \<open>Open g key nonce sealed\<close> the plaintext, or \<open>None\<close> when
  authentication fails. \<open>rnd\<close> is what \<^verbatim>\<open>rand.Reader\<close> delivers to the read of the nonce.
\<close>

record gcm =
  Seal :: "byte list \<Rightarrow> byte list \<Rightarrow> byte list \<Rightarrow> byte list"
  Open :: "byte list \<Rightarrow> byte list \<Rightarrow> byte list \<Rightarrow> byte list option"

definition NonceSize :: nat where
  "NonceSize = 12"

definition EncryptAES :: "gcm \<Rightarrow> byte list \<Rightarrow> byte list \<Rightarrow> byte list \<Rightarrow> go_error + byte list" where
  "EncryptAES g rnd plaintext key =
     (if length key \<notin> {16, 24, 32} then Inl ErrInvalidKeySize
      else if length rnd < NonceSize then Inl ErrUnexpectedEOF
      else (let nonce = take NonceSize rnd
            in Inr (nonce @ Seal g key nonce plaintext)))"

definition DecryptAES :: "gcm \<Rightarrow> byte list \<Rightarrow> byte list \<Rightarrow> go_error + byte list" where
  "DecryptAES g ciphertext key =
     (if length key \<notin> {16, 24, 32} then Inl ErrInvalidKeySize
      else if length ciphertext < NonceSize then Inl ErrCiphertextTooShort
      else (case Open g key (take NonceSize ciphertext) (drop NonceSize ciphertext) of
              None \<Rightarrow> Inl ErrAuthenticationFailed
            | Some plaintext \<Rightarrow> Inr plaintext))"

definition ApplyObfuscation :: "header_map \<Rightarrow> ObfuscationConfig \<Rightarrow> header_map" where
  "ApplyObfuscation headers config =
     fold (\<lambda>(k, v) obfuscated. AList.update k v obfuscated) (ObfuscationConfig.Headers config)
       (fold (\<lambda>(k, v) obfuscated. AList.update k v obfuscated) headers [])"

section \<open>Client\<close>

record ClientConfig =
  ChunkSize :: int
  UpstreamServers :: "string list"
  DownstreamPort :: int
  Timeout :: int
  Encryption :: EncryptionConfig
  EncryptionKey :: "byte list"

text \<open>
  What one call of \<open>fragmentAndSend\<close> reads from outside: the bytes \<^verbatim>\<open>rand.Reader\<close> gives to
  the nonce of loop iteration \<open>i\<close>, and the clock at that iteration.
\<close>

record LoopEnv =
  rand_Reader :: "int \<Rightarrow> byte list"
  time_Now :: "int \<Rightarrow> int"

text \<open>The body of the loop of \<open>fragmentAndSend\<close>, for loop variable \<open>i\<close>.\<close>

definition fragmentStep ::
  "gcm \<Rightarrow> LoopEnv \<Rightarrow> ClientConfig \<Rightarrow> string \<Rightarrow> string \<Rightarrow> string \<Rightarrow> byte list \<Rightarrow> header_map
     \<Rightarrow> int \<Rightarrow> string \<Rightarrow> int \<Rightarrow> go_error + (Chunk \<times> string)" where
  "fragmentStep g env c sessionID method url body headers totalChunks clientAddr i =
     (let start = go_mul i (ClientConfig.ChunkSize c);
          end0 = go_add start (ClientConfig.ChunkSize c);
          end1 = (if end0 > len body then len body else end0)
      in case go_slice body start end1 of
           Inl p \<Rightarrow> Inl p
         | Inr sliced \<Rightarrow>
             (let chunkData = (if len sliced = 0 \<and> i = 0 then [] else sliced)
              in case (if Enabled (ClientConfig.Encryption c)
                       then (case EncryptAES g (rand_Reader env i) chunkData (ClientConfig.EncryptionKey c) of
                               Inl err \<Rightarrow> Inl (ErrWrapped ''encryption failed'' err)
                             | Inr encrypted \<Rightarrow> Inr encrypted)
                       else Inr chunkData) of
                   Inl err \<Rightarrow> Inl err
                 | Inr chunkData' \<Rightarrow>
                     (let chunk = \<lparr> Chunk.SessionID = sessionID,
                                    SequenceNum = go_add i 1,
                                    Chunk.TotalChunks = totalChunks,
                                    Data = chunkData',
                                    Timestamp = time_Now env i,
                                    SourceClient = clientAddr,
                                    Chunk.TargetURL = url,
                                    Chunk.Method = method,
                                    Chunk.Headers = headers \<rparr>
                      in case go_rem i (len (UpstreamServers c)) of
                           Inl p \<Rightarrow> Inl p
                         | Inr j \<Rightarrow>
                             (case go_index (UpstreamServers c) j of
                                Inl p \<Rightarrow> Inl p
                              | Inr upstreamURL \<Rightarrow> Inr (chunk, upstreamURL)))))"

text \<open>
  \<open>fragmentAndSend\<close>: the chunks handed to \<open>sendChunk\<close>, each with the upstream it is sent
  to, in sending order, and the error or panic that ended the call, if any. A failed send
  is only logged, so it does not show in the result.
\<close>

definition fragmentAndSend ::
  "gcm \<Rightarrow> LoopEnv \<Rightarrow> ClientConfig \<Rightarrow> string \<Rightarrow> string \<Rightarrow> string \<Rightarrow> byte list \<Rightarrow> header_map
     \<Rightarrow> (Chunk \<times> string) list \<times> go_error option" where
  "fragmentAndSend g env c sessionID method url body headers =
     (case go_quo (go_sub (go_add (len body) (ClientConfig.ChunkSize c)) 1) (ClientConfig.ChunkSize c) of
        Inl p \<Rightarrow> ([], Some p)
      | Inr totalChunks0 \<Rightarrow>
          (let totalChunks = (if totalChunks0 = 0 then 1 else totalChunks0);
               clientAddr = ''client:'' @ Itoa (DownstreamPort c)
           in forLoop
                (fragmentStep g env c sessionID method url body headers totalChunks clientAddr)
                totalChunks 0 []))"

text \<open>
  A request arriving at a node's \<^verbatim>\<open>/chunk\<close> endpoint: its method, and the chunk its body
  deserializes to (\<open>None\<close> when the body cannot be read or \<open>DeserializeChunk\<close> fails).
\<close>

record chunk_request =
  in_method :: string
  in_chunk :: "Chunk option"

record ProxyResponse =
  StatusCode :: int
  Headers :: header_map
  Body :: "byte list"
  Error :: "go_error option"

text \<open>\<open>ResponseChan\<close> is a channel of capacity one: empty, or holding one response.\<close>

record PendingSession =
  SessionID :: string
  RequestURL :: string
  Method :: string
  StartTime :: int
  ResponseChan :: "ProxyResponse option"
  Chunks :: "int \<rightharpoonup> Chunk"
  TotalChunks :: int

record ProxyClient =
  config :: ClientConfig
  pendingSessions :: "string \<rightharpoonup> PendingSession"

text \<open>
  The loop \<^verbatim>\<open>for i := 1; i <= total; i++\<close> that \<open>assembleResponse\<close> and
  \<open>processCompleteSession\<close> share: the payloads in sequence order, or the first missing
  sequence number. The loop leaves at the first missing slot, so \<open>i + 1\<close> stays an \<^verbatim>\<open>int\<close>.
\<close>

function concatChunks :: "(int \<rightharpoonup> Chunk) \<Rightarrow> int \<Rightarrow> int \<Rightarrow> byte list \<Rightarrow> int + byte list" where
  "concatChunks chunks totalChunks i acc =
     (if i \<le> totalChunks
      then (case chunks i of
              None \<Rightarrow> Inl i
            | Some chunk \<Rightarrow> concatChunks chunks totalChunks (i + 1) (acc @ Data chunk))
      else Inr acc)"
  by pat_completeness auto
termination
  by (relation "measure (\<lambda>(chunks, totalChunks, i, acc). nat (totalChunks + 1 - i))") auto

declare concatChunks.simps [simp del]

text \<open>
  \<open>handleResponseChunk\<close>: the status answered, the client afterwards, and the session
  handed to \<^verbatim>\<open>go c.assembleResponse\<close>, if the completion check fires.
\<close>

definition handleResponseChunk ::
  "gcm \<Rightarrow> ProxyClient \<Rightarrow> chunk_request \<Rightarrow> int \<times> ProxyClient \<times> PendingSession option" where
  "handleResponseChunk g c r =
     (if in_method r \<noteq> ''POST'' then (405, c, None)
      else case in_chunk r of
        None \<Rightarrow> (400, c, None)
      | Some received \<Rightarrow>
          (case (if Enabled (ClientConfig.Encryption (ProxyClient.config c))
                 then DecryptAES g (Data received) (ClientConfig.EncryptionKey (ProxyClient.config c))
                 else Inr (Data received)) of
             Inl err \<Rightarrow> (500, c, None)
           | Inr decrypted \<Rightarrow>
               (let chunk = received\<lparr>Data := decrypted\<rparr>
                in case pendingSessions c (Chunk.SessionID chunk) of
                     None \<Rightarrow> (200, c, None)
                   | Some session \<Rightarrow>
                       (let session' = session
                              \<lparr>PendingSession.Chunks :=
                                 (PendingSession.Chunks session)(SequenceNum chunk \<mapsto> chunk),
                               PendingSession.TotalChunks := Chunk.TotalChunks chunk\<rparr>;
                            c' = c\<lparr>pendingSessions :=
                                   (pendingSessions c)(Chunk.SessionID chunk \<mapsto> session')\<rparr>
                        in (200, c',
                            if int (card (dom (PendingSession.Chunks session')))
                                 = PendingSession.TotalChunks session'
                            then Some session' else None)))))"

text \<open>
  \<open>assembleResponse\<close>: the session with what the call leaves in its channel. The error of a
  missing chunk is sent with a blocking send, the assembled response with a non-blocking
  one; on a full channel the first blocks for ever and the second is dropped, and either
  way the channel keeps what it held.
\<close>

definition assembleResponse :: "PendingSession \<Rightarrow> PendingSession" where
  "assembleResponse session =
     (case concatChunks (PendingSession.Chunks session) (PendingSession.TotalChunks session) 1 [] of
        Inl i \<Rightarrow>
          (case ResponseChan session of
             None \<Rightarrow> session\<lparr>ResponseChan :=
                        Some \<lparr>StatusCode = 0, ProxyResponse.Headers = [], Body = [],
                              Error = Some (ErrMissingChunk i)\<rparr>\<rparr>
           | Some held \<Rightarrow> session)
      | Inr fullResponse \<Rightarrow>
          (case ResponseChan session of
             None \<Rightarrow> session\<lparr>ResponseChan :=
                        Some \<lparr>StatusCode = 200, ProxyResponse.Headers = [], Body = fullResponse,
                              Error = None\<rparr>\<rparr>
           | Some held \<Rightarrow> session))"

text \<open>
  One arriving response chunk, with the goroutine the handler starts run at once: the
  assembled session is the one the table and the waiting caller point to.
\<close>

definition clientReceive :: "gcm \<Rightarrow> ProxyClient \<Rightarrow> chunk_request \<Rightarrow> ProxyClient" where
  "clientReceive g c r =
     (case handleResponseChunk g c r of
        (status, c', None) \<Rightarrow> c'
      | (status, c', Some session) \<Rightarrow>
          c'\<lparr>pendingSessions :=
               (pendingSessions c')(PendingSession.SessionID session \<mapsto> assembleResponse session)\<rparr>)"

text \<open>
  \<open>MakeRequest\<close> after the session is registered: fragment and send, then wait. \<open>arrivals\<close>
  are the requests the client's \<^verbatim>\<open>/chunk\<close> endpoint handles before the timer of the
  \<^verbatim>\<open>select\<close> fires; a response in the channel by then is returned, otherwise the call
  times out. Both ways the session is deleted. The result is the client afterwards, the
  chunks sent, and what the caller gets.
\<close>

definition MakeRequest ::
  "gcm \<Rightarrow> LoopEnv \<Rightarrow> ProxyClient \<Rightarrow> string \<Rightarrow> int \<Rightarrow> string \<Rightarrow> string \<Rightarrow> byte list \<Rightarrow> header_map
     \<Rightarrow> chunk_request list
     \<Rightarrow> ProxyClient \<times> (Chunk \<times> string) list \<times> (go_error + ProxyResponse)" where
  "MakeRequest g env c sessionID now method url body headers arrivals =
     (let session = \<lparr> PendingSession.SessionID = sessionID, RequestURL = url,
                       PendingSession.Method = method, StartTime = now, ResponseChan = None,
                       PendingSession.Chunks = Map.empty, PendingSession.TotalChunks = 0 \<rparr>;
          c1 = c\<lparr>pendingSessions := (pendingSessions c)(sessionID \<mapsto> session)\<rparr>
      in case fragmentAndSend g env (ProxyClient.config c) sessionID method url body headers of
           (sent, Some err) \<Rightarrow>
             (c1\<lparr>pendingSessions := (pendingSessions c1)(sessionID := None)\<rparr>, sent,
              Inl (ErrWrapped ''failed to send request'' err))
         | (sent, None) \<Rightarrow>
             (let c2 = fold (\<lambda>r cl. clientReceive g cl r) arrivals c1;
                  c3 = c2\<lparr>pendingSessions := (pendingSessions c2)(sessionID := None)\<rparr>
              in case pendingSessions c2 sessionID of
                   None \<Rightarrow> (c3, sent, Inl ErrTimeout)
                 | Some waiting \<Rightarrow>
                     (case ResponseChan waiting of
                        None \<Rightarrow> (c3, sent, Inl ErrTimeout)
                      | Some response \<Rightarrow>
                          (case Error response of
                             Some err \<Rightarrow> (c3, sent, Inl err)
                           | None \<Rightarrow> (c3, sent, Inr response)))))"

section \<open>Upstream\<close>

record UpstreamConfig =
  ListenPort :: int
  CentralProxy :: string
  Obfuscation :: ObfuscationConfig
  Encryption :: EncryptionConfig
  EncryptionKey :: "byte list"

text \<open>
  \<open>handleChunk\<close> of the upstream server: the status answered and the chunk handed to
  \<open>forwardToCentral\<close>, if the handler gets that far. \<open>rnd\<close> feeds the nonce, and
  \<open>forward\<close> is the outcome of the POST to the central proxy.
\<close>

definition UpstreamServer_handleChunk ::
  "gcm \<Rightarrow> byte list \<Rightarrow> (Chunk \<Rightarrow> go_error option) \<Rightarrow> UpstreamConfig \<Rightarrow> chunk_request
     \<Rightarrow> int \<times> Chunk option" where
  "UpstreamServer_handleChunk g rnd forward s r =
     (if in_method r \<noteq> ''POST'' then (405, None)
      else case in_chunk r of
        None \<Rightarrow> (400, None)
      | Some received \<Rightarrow>
          (let chunk = received\<lparr>Chunk.Headers :=
                          ApplyObfuscation (Chunk.Headers received) (Obfuscation s)\<rparr>
           in case (if Enabled (UpstreamConfig.Encryption s)
                    then EncryptAES g rnd (Data chunk) (UpstreamConfig.EncryptionKey s)
                    else Inr (Data chunk)) of
                Inl err \<Rightarrow> (500, None)
              | Inr payload \<Rightarrow>
                  (let chunk' = chunk\<lparr>Data := payload\<rparr>
                   in case forward chunk' of
                        Some err \<Rightarrow> (500, Some chunk')
                      | None \<Rightarrow> (200, Some chunk'))))"

section \<open>Central\<close>

record CentralConfig =
  ListenPort :: int
  DownstreamServers :: "string list"
  ReassemblyTimeout :: int
  ProxyMode :: string
  Encryption :: EncryptionConfig
  EncryptionKey :: "byte list"
  ChunkSize :: int

record CentralProxy =
  config :: CentralConfig
  sessions :: "string \<rightharpoonup> Session"

text \<open>
  The outbound side of a node. \<open>NewRequest_ok method url\<close>: whether \<^verbatim>\<open>http.NewRequest\<close>
  accepts the method and the URL. \<open>Do req\<close>: the error of \<^verbatim>\<open>client.Do\<close>, or the response, of
  which only the body matters here: what \<^verbatim>\<open>io.ReadAll\<close> gives for it, the bytes or the error
  of the read. \<open>Header_Set\<close> and \<open>Header_Get\<close> are
  \<^verbatim>\<open>Header.Set\<close> and \<^verbatim>\<open>Header.Get\<close>: both bring the name they are given into the canonical
  form of \<^verbatim>\<open>textproto.CanonicalMIMEHeaderKey\<close> (a name of token characters gets an upper-case
  letter at its start and after every hyphen and lower-case letters elsewhere; any other
  name is left as it is). The headers of an incoming request are held under the canonical
  names the server gave them. \<^verbatim>\<open>http.NewRequest\<close> turns an empty method into \<^verbatim>\<open>GET\<close>. Where a
  loop ranges over a Go map, the association list is read in the order of the iteration.
\<close>

record http_request =
  req_method :: string
  req_url :: string
  req_body :: "byte list"
  req_header :: header_map

record World =
  NewRequest_ok :: "string \<Rightarrow> string \<Rightarrow> bool"
  Do :: "http_request \<Rightarrow> go_error + (go_error + byte list)"

definition validHeaderFieldByte :: "char \<Rightarrow> bool" where
  "validHeaderFieldByte c =
     (c \<in> set (''!#$%&*+-.^_`|~0123456789'' @ ''ABCDEFGHIJKLMNOPQRSTUVWXYZ''
                @ ''abcdefghijklmnopqrstuvwxyz'') \<or> c = CHR 0x27)"

definition toUpper :: "char \<Rightarrow> char" where
  "toUpper c =
     (case map_of (zip ''abcdefghijklmnopqrstuvwxyz'' ''ABCDEFGHIJKLMNOPQRSTUVWXYZ'') c of
        None \<Rightarrow> c | Some u \<Rightarrow> u)"

definition toLower :: "char \<Rightarrow> char" where
  "toLower c =
     (case map_of (zip ''ABCDEFGHIJKLMNOPQRSTUVWXYZ'' ''abcdefghijklmnopqrstuvwxyz'') c of
        None \<Rightarrow> c | Some l \<Rightarrow> l)"

fun canonicalLoop :: "bool \<Rightarrow> string \<Rightarrow> string" where
  "canonicalLoop upper [] = []"
| "canonicalLoop upper (c # rest) =
     (let c' = (if upper then toUpper c else toLower c)
      in c' # canonicalLoop (c' = CHR ''-'') rest)"

definition CanonicalMIMEHeaderKey :: "string \<Rightarrow> string" where
  "CanonicalMIMEHeaderKey s = (if list_all validHeaderFieldByte s then canonicalLoop True s else s)"

definition Header_Set :: "header_map \<Rightarrow> string \<Rightarrow> string \<Rightarrow> header_map" where
  "Header_Set h k v = AList.update (CanonicalMIMEHeaderKey k) v h"

definition Header_Get :: "header_map \<Rightarrow> string \<Rightarrow> string" where
  "Header_Get h k = (case map_of h (CanonicalMIMEHeaderKey k) of None \<Rightarrow> [] | Some v \<Rightarrow> v)"

definition NewRequest_method :: "string \<Rightarrow> string" where
  "NewRequest_method method = (if method = [] then ''GET'' else method)"

text \<open>
  \<open>handleChunk\<close> of the central proxy at clock \<open>now\<close>: the status, the proxy afterwards,
  and the session handed to \<^verbatim>\<open>go p.processCompleteSession\<close> when the completion check fires.
\<close>

definition CentralProxy_handleChunk ::
  "gcm \<Rightarrow> int \<Rightarrow> CentralProxy \<Rightarrow> chunk_request \<Rightarrow> int \<times> CentralProxy \<times> Session option" where
  "CentralProxy_handleChunk g now p r =
     (if in_method r \<noteq> ''POST'' then (405, p, None)
      else case in_chunk r of
        None \<Rightarrow> (400, p, None)
      | Some received \<Rightarrow>
          (case (if Enabled (CentralConfig.Encryption (CentralProxy.config p))
                 then DecryptAES g (Data received) (CentralConfig.EncryptionKey (CentralProxy.config p))
                 else Inr (Data received)) of
             Inl err \<Rightarrow> (500, p, None)
           | Inr decrypted \<Rightarrow>
               (let chunk = received\<lparr>Data := decrypted\<rparr>;
                    session = (case sessions p (Chunk.SessionID chunk) of
                                 Some existing \<Rightarrow> existing
                               | None \<Rightarrow>
                                   \<lparr> Session.SessionID = Chunk.SessionID chunk,
                                     Session.Chunks = Map.empty,
                                     Session.TotalChunks = Chunk.TotalChunks chunk,
                                     ReceivedAt = now,
                                     Session.TargetURL = Chunk.TargetURL chunk,
                                     Session.Method = Chunk.Method chunk,
                                     Session.Headers = Chunk.Headers chunk \<rparr>);
                    session' = session\<lparr>Session.Chunks :=
                                 (Session.Chunks session)(SequenceNum chunk \<mapsto> chunk)\<rparr>;
                    p' = p\<lparr>sessions := (sessions p)(Chunk.SessionID chunk \<mapsto> session')\<rparr>
                in (200, p',
                    if int (card (dom (Session.Chunks session'))) = Session.TotalChunks session'
                    then Some session' else None))))"

text \<open>
  \<open>performProxyRequest\<close> of the central proxy: the request handed to \<^verbatim>\<open>client.Do\<close>, if one
  was built, and the response body or the error.
\<close>

definition CentralProxy_performProxyRequest ::
  "World \<Rightarrow> Session \<Rightarrow> byte list \<Rightarrow> http_request list \<times> (go_error + byte list)" where
  "CentralProxy_performProxyRequest w session body =
     (if \<not> NewRequest_ok w (Session.Method session) (Session.TargetURL session)
      then ([], Inl (ErrWrapped ''request creation error'' ErrRequestCreation))
      else (let req = \<lparr> req_method = NewRequest_method (Session.Method session),
                           req_url = Session.TargetURL session,
                           req_body = body,
                           req_header = fold (\<lambda>(k, v) h. Header_Set h k v)
                                          (Session.Headers session) [] \<rparr>
            in ([req],
                case Do w req of
                  Inl err \<Rightarrow> Inl (ErrWrapped ''request error'' err)
                | Inr resp \<Rightarrow>
                    (case resp of
                       Inl err \<Rightarrow> Inl (ErrWrapped ''response read error'' err)
                     | Inr responseData \<Rightarrow> Inr responseData))))"

text \<open>The body of the loop of \<open>fragmentAndForward\<close>, for loop variable \<open>i\<close>.\<close>

definition forwardStep ::
  "gcm \<Rightarrow> LoopEnv \<Rightarrow> CentralConfig \<Rightarrow> Session \<Rightarrow> byte list \<Rightarrow> int \<Rightarrow> int
     \<Rightarrow> go_error + (Chunk \<times> string)" where
  "forwardStep g env c session response totalChunks i =
     (let start = go_mul i (CentralConfig.ChunkSize c);
          end0 = go_add start (CentralConfig.ChunkSize c);
          end1 = (if end0 > len response then len response else end0)
      in case go_slice response start end1 of
           Inl p \<Rightarrow> Inl p
         | Inr sliced \<Rightarrow>
             (case Session.Chunks session 1 of
                None \<Rightarrow> Inl PanicNilDereference
              | Some first \<Rightarrow>
                  (let chunk = \<lparr> Chunk.SessionID = Session.SessionID session,
                                 SequenceNum = go_add i 1,
                                 Chunk.TotalChunks = totalChunks,
                                 Data = sliced,
                                 Timestamp = time_Now env i,
                                 SourceClient = SourceClient first,
                                 Chunk.TargetURL = [],
                                 Chunk.Method = [],
                                 Chunk.Headers = [] \<rparr>
                   in case (if Enabled (CentralConfig.Encryption c)
                            then (case EncryptAES g (rand_Reader env i) (Data chunk)
                                         (CentralConfig.EncryptionKey c) of
                                    Inl err \<Rightarrow> Inl (ErrWrapped ''encryption error'' err)
                                  | Inr encrypted \<Rightarrow> Inr encrypted)
                            else Inr (Data chunk)) of
                        Inl err \<Rightarrow> Inl err
                      | Inr payload \<Rightarrow>
                          (case go_rem i (len (DownstreamServers c)) of
                             Inl p \<Rightarrow> Inl p
                           | Inr j \<Rightarrow>
                               (case go_index (DownstreamServers c) j of
                                  Inl p \<Rightarrow> Inl p
                                | Inr downstreamURL \<Rightarrow>
                                    Inr (chunk\<lparr>Data := payload\<rparr>, downstreamURL))))))"

text \<open>
  \<open>fragmentAndForward\<close>: the value computed for \<open>totalChunks\<close> (or the panic of the
  division), the chunks handed to \<open>sendToDownstream\<close> with their downstream, and how the
  loop ended.
\<close>

definition responseTotalChunks :: "CentralConfig \<Rightarrow> byte list \<Rightarrow> go_error + int" where
  "responseTotalChunks c response =
     go_quo (go_sub (go_add (len response) (CentralConfig.ChunkSize c)) 1)
       (CentralConfig.ChunkSize c)"

definition fragmentAndForward ::
  "gcm \<Rightarrow> LoopEnv \<Rightarrow> CentralConfig \<Rightarrow> Session \<Rightarrow> byte list
     \<Rightarrow> (Chunk \<times> string) list \<times> go_error option" where
  "fragmentAndForward g env c session response =
     (case responseTotalChunks c response of
        Inl p \<Rightarrow> ([], Some p)
      | Inr totalChunks \<Rightarrow>
          forLoop (forwardStep g env c session response totalChunks) totalChunks 0 [])"

fun is_panic :: "go_error \<Rightarrow> bool" where
  "is_panic PanicDivideByZero = True"
| "is_panic PanicSliceBounds = True"
| "is_panic PanicIndexOutOfRange = True"
| "is_panic PanicNilDereference = True"
| "is_panic PanicNonPositiveInterval = True"
| "is_panic e = False"

text \<open>
  \<open>processCompleteSession\<close>: the proxy afterwards, the outbound requests issued and the
  chunks handed to \<open>sendToDownstream\<close>. The two early returns (a missing chunk, a failed
  outbound request) leave before the cleanup at the end of the function; a panic in the
  fragmentation never reaches it either.
\<close>

definition processCompleteSession ::
  "World \<Rightarrow> gcm \<Rightarrow> LoopEnv \<Rightarrow> CentralProxy \<Rightarrow> Session
     \<Rightarrow> CentralProxy \<times> http_request list \<times> (Chunk \<times> string) list" where
  "processCompleteSession w g env p session =
     (case concatChunks (Session.Chunks session) (Session.TotalChunks session) 1 [] of
        Inl missing \<Rightarrow> (p, [], [])
      | Inr fullData \<Rightarrow>
          (case CentralProxy_performProxyRequest w session fullData of
             (issued, Inl err) \<Rightarrow> (p, issued, [])
           | (issued, Inr response) \<Rightarrow>
               (case fragmentAndForward g env (CentralProxy.config p) session response of
                  (sent, ended) \<Rightarrow>
                    (if (case ended of Some e \<Rightarrow> is_panic e | None \<Rightarrow> False)
                     then (p, issued, sent)
                     else (p\<lparr>sessions := (sessions p)(Session.SessionID session := None)\<rparr>,
                           issued, sent)))))"

text \<open>
  A delivery is a request to \<^verbatim>\<open>/chunk\<close> with the clock at its arrival and the environment
  of the dispatch it may start. \<open>CentralProxy_deliver\<close> handles one delivery and runs the
  goroutine the handler starts to its end before the next delivery; \<open>CentralProxy_run\<close>
  does so for a sequence of deliveries, collecting the outbound requests and the chunks
  dispatched.
\<close>

type_synonym delivery = "int \<times> LoopEnv \<times> chunk_request"

type_synonym central_trace = "CentralProxy \<times> http_request list \<times> (Chunk \<times> string) list"

definition CentralProxy_deliver :: "World \<Rightarrow> gcm \<Rightarrow> central_trace \<Rightarrow> delivery \<Rightarrow> central_trace" where
  "CentralProxy_deliver w g t d =
     (case t of (p, issued, sent) \<Rightarrow>
        (case d of (now, env, r) \<Rightarrow>
           (case CentralProxy_handleChunk g now p r of
              (status, p', None) \<Rightarrow> (p', issued, sent)
            | (status, p', Some session) \<Rightarrow>
                (case processCompleteSession w g env p' session of
                   (p'', issued', sent') \<Rightarrow> (p'', issued @ issued', sent @ sent')))))"

definition CentralProxy_run :: "World \<Rightarrow> gcm \<Rightarrow> CentralProxy \<Rightarrow> delivery list \<Rightarrow> central_trace" where
  "CentralProxy_run w g p ds = fold (\<lambda>d t. CentralProxy_deliver w g t d) ds (p, [], [])"

text \<open>
  The body of the loop of \<open>cleanupSessions\<close>: what one tick of its ticker does at clock \<open>now\<close>,
  the clock counted in nanoseconds. The timeout is
  \<^verbatim>\<open>time.Duration(ReassemblyTimeout) * time.Millisecond\<close>, a product of nanoseconds in 64 bits,
  and \<^verbatim>\<open>now.Sub\<close> gives the largest or the smallest duration when the difference does not fit.
\<close>

definition time_Sub :: "int \<Rightarrow> int \<Rightarrow> int" where
  "time_Sub t u = max (- (2 ^ 63)) (min (2 ^ 63 - 1) (t - u))"

definition cleanupTick :: "int \<Rightarrow> CentralProxy \<Rightarrow> CentralProxy" where
  "cleanupTick now p =
     p\<lparr>sessions :=
         (\<lambda>sessionID.
            case sessions p sessionID of
              None \<Rightarrow> None
            | Some session \<Rightarrow>
                if time_Sub now (Session.ReceivedAt session)
                     > go_mul (ReassemblyTimeout (CentralProxy.config p)) 1000000
                then None else Some session)\<rparr>"

section \<open>Relay\<close>

record RelayConfig =
  ListenPort :: int
  NodeID :: string
  NextHops :: "string list"
  PrevHops :: "string list"
  GatewayURL :: string
  AuthToken :: string
  Secret :: string
  TrafficMixing :: bool
  RotationTime :: int

text \<open>The relay node, without its HTTP client and its traffic buffer, which rotation never touches.\<close>

record RelayNode =
  config :: RelayConfig
  currentHopIdx :: int

text \<open>\<open>NewRelayNode\<close>, from the configuration it reads: the cursor starts at 0.\<close>

definition NewRelayNode :: "RelayConfig \<Rightarrow> RelayNode" where
  "NewRelayNode cfg = \<lparr> RelayNode.config = cfg, currentHopIdx = 0 \<rparr>"

text \<open>The body of the loop of \<open>rotateRoutes\<close>: what one tick of the ticker does.\<close>

definition rotateTick :: "RelayNode \<Rightarrow> RelayNode" where
  "rotateTick r =
     (if len (NextHops (RelayNode.config r)) \<le> 1 then r
      else (case go_rem (go_add (currentHopIdx r) 1) (len (NextHops (RelayNode.config r))) of
              Inl p \<Rightarrow> r
            | Inr j \<Rightarrow> r\<lparr>currentHopIdx := j\<rparr>))"

text \<open>\<open>rotateRoutes\<close> after the ticker has delivered \<open>n\<close> ticks.\<close>

fun rotateRoutes :: "nat \<Rightarrow> RelayNode \<Rightarrow> RelayNode" where
  "rotateRoutes 0 r = r"
| "rotateRoutes (Suc n) r = rotateRoutes n (rotateTick r)"

text \<open>
  The relay \<open>T\<close> seconds after \<open>NewRelayNode\<close>. The goroutine is started only for a positive
  \<open>RotationTime\<close>. Its ticker is \<^verbatim>\<open>time.NewTicker\<close> of \<^verbatim>\<open>time.Duration(RotationTime) * time.Second\<close>,
  a product of nanoseconds in 64 bits; \<^verbatim>\<open>NewTicker\<close> panics when the duration is not
  positive, and otherwise the ticker has by then delivered one tick for every whole
  period elapsed.
\<close>

definition relayAfter :: "real \<Rightarrow> RelayNode \<Rightarrow> go_error + RelayNode" where
  "relayAfter T r =
     (if RotationTime (RelayNode.config r) > 0
      then (let period = go_mul (RotationTime (RelayNode.config r)) 1000000000
            in if period \<le> 0 then Inl PanicNonPositiveInterval
               else Inr (rotateRoutes (nat \<lfloor>T * 1000000000 / real_of_int period\<rfloor>) r))
      else Inr r)"

section \<open>Gateway\<close>

record AnonymizationConfig =
  TrafficMixing :: bool
  SourceRotation :: bool
  MACRandomization :: bool
  TimingJitter :: int

record IsolationConfig =
  HideGatewayIP :: bool
  UseRelayNodes :: bool

record GatewayConfig =
  ListenPort :: int
  AuthenticatedNodes :: "string list"
  Anonymization :: AnonymizationConfig
  Isolation :: IsolationConfig
  NodeTokens :: "string \<rightharpoonup> string"

record TrafficRequest =
  RequestID :: string
  NodeID :: string
  TargetURL :: string
  Method :: string
  Body :: "byte list"
  Headers :: header_map
  ReceivedAt :: int

record StarlinkGateway =
  config :: GatewayConfig
  trafficBatch :: "TrafficRequest list"

text \<open>The JSON bodies of \<^verbatim>\<open>/proxy\<close> and \<^verbatim>\<open>/register\<close>, as the handlers decode them.\<close>

record proxyReq =
  RequestID :: string
  TargetURL :: string
  Method :: string
  Body :: "byte list"
  Headers :: header_map

record regReq =
  NodeID :: string
  Secret :: string

text \<open>
  A request to \<^verbatim>\<open>/proxy\<close>: its headers and what its body decodes to (\<open>None\<close> when the
  decoder fails). A request to \<^verbatim>\<open>/register\<close>: its method and its decoded body. A reply is a
  status and a body: the text of \<^verbatim>\<open>http.Error\<close>, raw bytes, or a JSON object of strings.
\<close>

record proxy_request =
  px_header :: header_map
  px_json :: "proxyReq option"

record register_request =
  reg_method :: string
  reg_json :: "regReq option"

datatype reply_body = Text string | Bytes "byte list" | Json "(string \<times> string) list"

type_synonym http_reply = "int \<times> reply_body"

definition hex_EncodeToString :: "byte list \<Rightarrow> string" where
  "hex_EncodeToString src =
     concat (map (\<lambda>b. [''0123456789abcdef'' ! (unat b div 16),
                         ''0123456789abcdef'' ! (unat b mod 16)]) src)"

text \<open>
  \<open>generateToken\<close>: a buffer of 32 zero bytes, overwritten by what \<^verbatim>\<open>rand.Read\<close> delivers
  (\<open>rnd\<close>; the error of a short read is ignored), hex-encoded.
\<close>

definition generateToken :: "byte list \<Rightarrow> string" where
  "generateToken rnd = hex_EncodeToString (take 32 (rnd @ replicate 32 0))"

text \<open>
  \<open>NewStarlinkGateway\<close>, from the configuration as parsed: a token is generated for every
  node of the list, in order, a later entry of the same node replacing the earlier; \<open>rnd i\<close>
  is what \<^verbatim>\<open>rand.Read\<close> delivers to the \<open>i\<close>-th call of \<open>generateToken\<close>.
\<close>

definition NewStarlinkGateway :: "GatewayConfig \<Rightarrow> (nat \<Rightarrow> byte list) \<Rightarrow> StarlinkGateway" where
  "NewStarlinkGateway cfg rnd =
     \<lparr> StarlinkGateway.config =
         cfg\<lparr>NodeTokens :=
               fold (\<lambda>(i, nodeID) tokens. tokens(nodeID \<mapsto> generateToken (rnd i)))
                 (enumerate 0 (AuthenticatedNodes cfg)) Map.empty\<rparr>,
       trafficBatch = [] \<rparr>"

definition authenticateNode :: "StarlinkGateway \<Rightarrow> string \<Rightarrow> string \<Rightarrow> bool" where
  "authenticateNode g nodeID token =
     (case NodeTokens (StarlinkGateway.config g) nodeID of
        None \<Rightarrow> False
      | Some expectedToken \<Rightarrow> expectedToken = token)"

text \<open>
  \<open>performProxyRequest\<close> of the gateway: the request handed to \<^verbatim>\<open>client.Do\<close>, if one was
  built, and the bytes returned or the error. The request is built with no body, and
  the bytes returned are a fresh empty slice: the response body is never read.
\<close>

definition StarlinkGateway_performProxyRequest ::
  "World \<Rightarrow> TrafficRequest \<Rightarrow> http_request list \<times> (go_error + byte list)" where
  "StarlinkGateway_performProxyRequest w trafficReq =
     (if \<not> NewRequest_ok w (TrafficRequest.Method trafficReq) (TrafficRequest.TargetURL trafficReq)
      then ([], Inl (ErrWrapped ''request creation error'' ErrRequestCreation))
      else (let req = \<lparr> req_method = NewRequest_method (TrafficRequest.Method trafficReq),
                           req_url = TrafficRequest.TargetURL trafficReq,
                           req_body = [],
                           req_header =
                             fold (\<lambda>(k, v) h.
                                     if k \<noteq> ''X-Node-ID'' \<and> k \<noteq> ''X-Auth-Token''
                                     then Header_Set h k v else h)
                               (TrafficRequest.Headers trafficReq) [] \<rparr>
            in ([req],
                case Do w req of
                  Inl err \<Rightarrow> Inl (ErrWrapped ''request error'' err)
                | Inr resp \<Rightarrow> Inr [])))"

text \<open>
  \<open>handleProxyRequest\<close> at clock \<open>now\<close>: the gateway afterwards, the reply, and the outbound
  requests issued while handling. The jitter only delays the handler.
\<close>

definition handleProxyRequest ::
  "World \<Rightarrow> int \<Rightarrow> StarlinkGateway \<Rightarrow> proxy_request
     \<Rightarrow> StarlinkGateway \<times> http_reply \<times> http_request list" where
  "handleProxyRequest w now g r =
     (let nodeID = Header_Get (px_header r) ''X-Node-ID'';
          token = Header_Get (px_header r) ''X-Auth-Token''
      in if \<not> authenticateNode g nodeID token
         then (g, (401, Text ''Unauthorized''), [])
         else case px_json r of
           None \<Rightarrow> (g, (400, Text ''Invalid request''), [])
         | Some decoded \<Rightarrow>
             (let trafficReq = \<lparr> TrafficRequest.RequestID = proxyReq.RequestID decoded,
                                  TrafficRequest.NodeID = nodeID,
                                  TrafficRequest.TargetURL = proxyReq.TargetURL decoded,
                                  TrafficRequest.Method = proxyReq.Method decoded,
                                  TrafficRequest.Body = proxyReq.Body decoded,
                                  TrafficRequest.Headers = proxyReq.Headers decoded,
                                  TrafficRequest.ReceivedAt = now \<rparr>
              in if AnonymizationConfig.TrafficMixing (Anonymization (StarlinkGateway.config g))
                 then (g\<lparr>trafficBatch := trafficBatch g @ [trafficReq]\<rparr>,
                       (202, Json [(''request_id'', proxyReq.RequestID decoded),
                                   (''status'', ''queued'')]),
                       [])
                 else (case StarlinkGateway_performProxyRequest w trafficReq of
                         (issued, Inl err) \<Rightarrow> (g, (500, Text ''Proxy error''), issued)
                       | (issued, Inr response) \<Rightarrow> (g, (200, Bytes response), issued))))"

text \<open>\<open>handleNodeRegistration\<close>; \<open>rnd\<close> is what \<^verbatim>\<open>rand.Read\<close> delivers to \<open>generateToken\<close>.\<close>

definition handleNodeRegistration ::
  "byte list \<Rightarrow> StarlinkGateway \<Rightarrow> register_request \<Rightarrow> StarlinkGateway \<times> http_reply" where
  "handleNodeRegistration rnd g r =
     (if reg_method r \<noteq> ''POST'' then (g, (405, Text ''Method not allowed''))
      else case reg_json r of
        None \<Rightarrow> (g, (400, Text ''Invalid request''))
      | Some decoded \<Rightarrow>
          (let authorized = list_ex (\<lambda>nodeID. nodeID = regReq.NodeID decoded)
                              (AuthenticatedNodes (StarlinkGateway.config g))
           in if \<not> authorized then (g, (401, Text ''Unauthorized''))
              else (let token = generateToken rnd
                    in (g\<lparr>StarlinkGateway.config := (StarlinkGateway.config g)
                            \<lparr>NodeTokens :=
                               (NodeTokens (StarlinkGateway.config g))
                                 (regReq.NodeID decoded \<mapsto> token)\<rparr>\<rparr>,
                        (200, Json [(''node_id'', regReq.NodeID decoded), (''token'', token)])))))"

section \<open>What the specification says, in its own terms\<close>

text \<open>
  The bytes the specification gives to chunk \<open>i\<close> (counted from 1) of a body cut at chunk
  size \<open>cs\<close>: the half-open range from \<open>(i - 1) * cs\<close> to the smaller of \<open>i * cs\<close> and the
  length of the body.
\<close>

definition chunk_range :: "'a list \<Rightarrow> nat \<Rightarrow> nat \<Rightarrow> 'a list" where
  "chunk_range body cs i = drop ((i - 1) * cs) (take (min (i * cs) (length body)) body)"

text \<open>
  How the client puts a fragment on the wire in loop iteration \<open>i\<close>: as it is, or, with
  encryption enabled, sealed under the nonce of that iteration, the nonce in front.
\<close>

definition clientPayload :: "gcm \<Rightarrow> LoopEnv \<Rightarrow> ClientConfig \<Rightarrow> int \<Rightarrow> byte list \<Rightarrow> byte list" where
  "clientPayload g env c i plain =
     (if Enabled (ClientConfig.Encryption c)
      then take NonceSize (rand_Reader env i)
             @ Seal g (ClientConfig.EncryptionKey c) (take NonceSize (rand_Reader env i)) plain
      else plain)"

text \<open>The value \<open>fragmentAndSend\<close> computes for \<open>totalChunks\<close> when nothing wraps around.\<close>

definition clientTotal :: "ClientConfig \<Rightarrow> byte list \<Rightarrow> int" where
  "clientTotal c body =
     (if (len body + ClientConfig.ChunkSize c - 1) div ClientConfig.ChunkSize c = 0 then 1
      else (len body + ClientConfig.ChunkSize c - 1) div ClientConfig.ChunkSize c)"

text \<open>The chunk and the upstream of loop iteration \<open>i\<close> of \<open>fragmentAndSend\<close>, in closed form.\<close>

definition clientChunk ::
  "gcm \<Rightarrow> LoopEnv \<Rightarrow> ClientConfig \<Rightarrow> string \<Rightarrow> string \<Rightarrow> string \<Rightarrow> byte list \<Rightarrow> header_map
     \<Rightarrow> int \<Rightarrow> string \<Rightarrow> int \<Rightarrow> Chunk \<times> string" where
  "clientChunk g env c sid m u body hs n addr i =
     (\<lparr> Chunk.SessionID = sid, SequenceNum = i + 1, Chunk.TotalChunks = n,
        Data = clientPayload g env c i (chunk_range body (nat (ClientConfig.ChunkSize c)) (nat i + 1)),
        Timestamp = time_Now env i, SourceClient = addr, Chunk.TargetURL = u,
        Chunk.Method = m, Chunk.Headers = hs \<rparr>,
      UpstreamServers c ! (nat i mod length (UpstreamServers c)))"

text \<open>A chunk as the POST that carries it to a \<^verbatim>\<open>/chunk\<close> endpoint.\<close>

definition asRequest :: "Chunk \<Rightarrow> chunk_request" where
  "asRequest chunk = \<lparr> in_method = ''POST'', in_chunk = Some chunk \<rparr>"

section \<open>Concrete inputs\<close>

text \<open>
  An authenticated-encryption stand-in with the shape of GCM, to run the nodes on concrete
  inputs: sealing keeps the plaintext and puts a 16-byte tag behind it, computed from the
  key and the nonce; opening checks the tag under its own key and nonce and gives the
  plaintext back, or fails.
\<close>

definition tagOf :: "byte list \<Rightarrow> byte list \<Rightarrow> byte list" where
  "tagOf key nonce =
     map (\<lambda>i. sum_list (map (\<lambda>j. (key @ nonce) ! j)
                          (filter (\<lambda>j. j mod 16 = i) [0..<length (key @ nonce)])))
       [0..<16]"

definition shape_gcm :: gcm where
  "shape_gcm =
     \<lparr> Seal = (\<lambda>key nonce plaintext. plaintext @ tagOf key nonce),
       Open = (\<lambda>key nonce sealed.
                 if 16 \<le> length sealed \<and> drop (length sealed - 16) sealed = tagOf key nonce
                 then Some (take (length sealed - 16) sealed) else None) \<rparr>"

definition demoKey :: "byte list" where
  "demoKey = map (\<lambda>ch. of_nat (of_char ch)) ''your-32-byte-encryption-key-here''"

definition demoEnv :: "int \<Rightarrow> LoopEnv" where
  "demoEnv t = \<lparr> rand_Reader = (\<lambda>i. replicate 12 9), time_Now = (\<lambda>i. t) \<rparr>"

definition demoEncryption :: "bool \<Rightarrow> EncryptionConfig" where
  "demoEncryption on = \<lparr> Enabled = on, Algorithm = ''aes-256-gcm'', Mode = ''body_only'' \<rparr>"

definition demoClient :: "int \<Rightarrow> bool \<Rightarrow> ClientConfig" where
  "demoClient cs on =
     \<lparr> ClientConfig.ChunkSize = cs, UpstreamServers = [''u0'', ''u1''], DownstreamPort = 7000,
       Timeout = 30000, ClientConfig.Encryption = demoEncryption on,
       ClientConfig.EncryptionKey = demoKey \<rparr>"

definition demoUpstream :: UpstreamConfig where
  "demoUpstream =
     \<lparr> UpstreamConfig.ListenPort = 8001, CentralProxy = ''central-proxy:8080'',
       Obfuscation = \<lparr> Type = ''http_mimic'', ObfuscationConfig.Headers = [],
                       Padding = False, Jitter = 0 \<rparr>,
       UpstreamConfig.Encryption = demoEncryption True,
       UpstreamConfig.EncryptionKey = demoKey \<rparr>"

definition demoCentral :: "int \<Rightarrow> bool \<Rightarrow> CentralProxy" where
  "demoCentral cs on =
     \<lparr> CentralProxy.config =
         \<lparr> CentralConfig.ListenPort = 8080, DownstreamServers = [''d0'', ''d1''],
           ReassemblyTimeout = 60000, ProxyMode = ''http'',
           CentralConfig.Encryption = demoEncryption on,
           CentralConfig.EncryptionKey = demoKey, CentralConfig.ChunkSize = cs \<rparr>,
       sessions = Map.empty \<rparr>"

text \<open>A target that answers every request with the bytes \<open>answer\<close>.\<close>

definition demoWorld :: "byte list \<Rightarrow> World" where
  "demoWorld answer = \<lparr> NewRequest_ok = (\<lambda>method url. True), Do = (\<lambda>req. Inr (Inr answer)) \<rparr>"


definition demoChunk :: "int \<Rightarrow> int \<Rightarrow> byte list \<Rightarrow> header_map \<Rightarrow> Chunk" where
  "demoChunk seq n payload hs =
     \<lparr> Chunk.SessionID = ''s1'', SequenceNum = seq, Chunk.TotalChunks = n, Data = payload,
       Timestamp = 0, SourceClient = ''client:7000'', Chunk.TargetURL = ''http://echo.test/'',
       Chunk.Method = ''POST'', Chunk.Headers = hs \<rparr>"

text \<open>
  A gateway as \<open>NewStarlinkGateway\<close> leaves it, with one configured node whose token was
  generated from 32 random bytes of value 3.
\<close>

definition demoToken :: string where
  "demoToken = generateToken (replicate 32 3)"

definition demoGateway :: "bool \<Rightarrow> StarlinkGateway" where
  "demoGateway mixing =
     \<lparr> StarlinkGateway.config =
         \<lparr> GatewayConfig.ListenPort = 9000, AuthenticatedNodes = [''relay-1''],
           Anonymization = \<lparr> AnonymizationConfig.TrafficMixing = mixing, SourceRotation = False,
                             MACRandomization = False, TimingJitter = 0 \<rparr>,
           Isolation = \<lparr> HideGatewayIP = True, UseRelayNodes = True \<rparr>,
           NodeTokens = [''relay-1'' \<mapsto> demoToken] \<rparr>,
       trafficBatch = [] \<rparr>"

definition demoProxyReq :: proxyReq where
  "demoProxyReq =
     \<lparr> proxyReq.RequestID = ''r1'', proxyReq.TargetURL = ''http://echo.test/'',
       proxyReq.Method = ''GET'', proxyReq.Body = [], proxyReq.Headers = [(''Accept'', ''*/*'')] \<rparr>"

definition demoRelayConfig :: "string list \<Rightarrow> RelayConfig" where
  "demoRelayConfig hops =
     \<lparr> RelayConfig.ListenPort = 9100, RelayConfig.NodeID = ''relay-1'',
       NextHops = hops, PrevHops = [], GatewayURL = [], AuthToken = [],
       RelayConfig.Secret = [], RelayConfig.TrafficMixing = False, RotationTime = 1 \<rparr>"

text \<open>The table of a session after the chunks \<open>xs\<close> were stored in it, in that order.\<close>

definition recorded :: "Chunk list \<Rightarrow> (int \<rightharpoonup> Chunk)" where
  "recorded xs = fold (\<lambda>chunk table. table(SequenceNum chunk \<mapsto> chunk)) xs Map.empty"

definition demoClientNode :: "int \<Rightarrow> bool \<Rightarrow> ProxyClient" where
  "demoClientNode cs on = \<lparr> ProxyClient.config = demoClient cs on, pendingSessions = Map.empty \<rparr>"

definition demoSession :: "(int \<rightharpoonup> Chunk) \<Rightarrow> int \<Rightarrow> header_map \<Rightarrow> Session" where
  "demoSession chunks n hs =
     \<lparr> Session.SessionID = ''s1'', Session.Chunks = chunks, Session.TotalChunks = n,
       ReceivedAt = 0, Session.TargetURL = ''http://echo.test/'', Session.Method = ''POST'',
       Session.Headers = hs \<rparr>"

section \<open>Arithmetic of the machine integers\<close>


lemma forLoop_all:
  "(\<And>j. i \<le> j \<Longrightarrow> j < n \<Longrightarrow> body j = Inr (f j)) \<Longrightarrow>
   forLoop body n i acc = (acc @ map f [i..n - 1], None)"
proof (induction body n i acc rule: forLoop.induct)
  case (1 body n i acc)
  show ?case
  proof (cases "i < n")
    case True
    have b: "body i = Inr (f i)" using 1(2)[of i] True by simp
    have "forLoop body n (i + 1) (acc @ [f i]) = ((acc @ [f i]) @ map f [i + 1..n - 1], None)"
      using 1(1)[OF True b] 1(2) by simp
    moreover have "[i..n - 1] = i # [i + 1..n - 1]" using True by (simp add: upto_rec1)
    ultimately show ?thesis using True b by (simp add: forLoop.simps[of body n i acc])
  next
    case False
    then show ?thesis by (simp add: forLoop.simps[of body n i acc])
  qed
qed


lemma int64_id: "- (2 ^ 63) \<le> x \<Longrightarrow> x < 2 ^ 63 \<Longrightarrow> int64 x = x"
  unfolding int64_def by simp

lemma int64_sub_left: "int64 (int64 a - b) = int64 (a - b)"
proof -
  have "((a + 2 ^ 63) mod 2 ^ 64 - b) mod 2 ^ 64 = (a + 2 ^ 63 - b) mod (2 ^ 64 :: int)"
    by (rule mod_diff_left_eq)
  then show ?thesis
    unfolding int64_def by (simp add: algebra_simps)
qed

lemma ceiling_div_int:
  assumes "0 < (b::int)"
  shows "\<lceil>real_of_int a / real_of_int b\<rceil> = (a + b - 1) div b"
proof (rule ceiling_unique)
  let ?q = "(a + b - 1) div b" and ?r = "(a + b - 1) mod b"
  have eq: "?q * b + ?r = a + b - 1" by simp
  have r: "0 \<le> ?r" "?r < b" using assms by simp_all
  have up: "a \<le> ?q * b" using eq r by linarith
  have "(?q - 1) * b = ?q * b - b" by (simp add: left_diff_distrib)
  then have lo: "(?q - 1) * b < a" using eq r by linarith
  show "real_of_int a / real_of_int b \<le> real_of_int ?q"
  proof -
    have "real_of_int a \<le> real_of_int (?q * b)" using up by (simp only: of_int_le_iff)
    then show ?thesis using assms by (simp add: pos_divide_le_eq)
  qed
  show "real_of_int ?q - 1 < real_of_int a / real_of_int b"
  proof -
    have "real_of_int ((?q - 1) * b) < real_of_int a" using lo by (simp only: of_int_less_iff)
    then show ?thesis using assms by (simp add: pos_less_divide_eq)
  qed
qed

lemma total_chunks0:
  assumes "1 \<le> cs" "0 \<le> L" "L + cs - 1 < 2 ^ 63"
  shows "go_quo (go_sub (go_add L cs) 1) cs = Inr ((L + cs - 1) div cs)"
proof -
  let ?x = "L + cs - 1"
  have x: "0 \<le> ?x" "?x < 2 ^ 63" using assms by simp_all
  have a: "go_sub (go_add L cs) 1 = ?x"
    unfolding go_sub_def go_add_def int64_sub_left using x by (simp add: int64_id)
  have d0: "0 \<le> ?x div cs" using x assms by (simp add: pos_imp_zdiv_nonneg_iff)
  have d1: "?x div cs \<le> ?x" using zdiv_mono2[of ?x 1 cs] x assms by simp
  have s: "sgn ?x * sgn cs * (\<bar>?x\<bar> div \<bar>cs\<bar>) = ?x div cs"
  proof (cases "?x = 0")
    case True
    then show ?thesis by simp
  next
    case False
    then have "0 < ?x" using x by simp
    then show ?thesis using assms by simp
  qed
  have cs0: "cs \<noteq> 0" using assms by simp
  have i: "int64 (?x div cs) = ?x div cs"
    by (rule int64_id) (use d0 d1 x in linarith)+
  have "go_quo ?x cs = Inr (int64 (sgn ?x * sgn cs * (\<bar>?x\<bar> div \<bar>cs\<bar>)))"
    unfolding go_quo_def using cs0 by (simp only: if_False)
  then show ?thesis by (simp only: a s i)
qed

lemma chunk_index_bound:
  assumes cs: "1 \<le> (cs::int)" and L: "0 \<le> L"
    and i: "0 \<le> i" "i < (if (L + cs - 1) div cs = 0 then 1 else (L + cs - 1) div cs)"
  shows "i * cs \<le> L" and "L \<noteq> 0 \<Longrightarrow> i * cs \<le> L - 1" and "L = 0 \<Longrightarrow> i = 0"
proof -
  let ?q = "(L + cs - 1) div cs" and ?r = "(L + cs - 1) mod cs"
  have eq: "?q * cs + ?r = L + cs - 1" by simp
  have r: "0 \<le> ?r" "?r < cs" using cs by simp_all
  show z: "L = 0 \<Longrightarrow> i = 0"
  proof -
    assume "L = 0"
    then have "?q = 0" using cs by (simp add: div_pos_pos_trivial)
    then show "i = 0" using i by simp
  qed
  show nz: "L \<noteq> 0 \<Longrightarrow> i * cs \<le> L - 1"
  proof -
    assume "L \<noteq> 0"
    then have Lp: "1 \<le> L" using L by simp
    have "?q \<noteq> 0"
    proof
      assume "?q = 0"
      then have "?r = L + cs - 1" using eq by (simp only: mult_zero_left add_0)
      then show False using r Lp by linarith
    qed
    then have "i \<le> ?q - 1" using i by simp
    then have "i * cs \<le> (?q - 1) * cs" using cs by (simp add: mult_right_mono)
    also have "(?q - 1) * cs = ?q * cs - cs" by (simp add: left_diff_distrib)
    finally show "i * cs \<le> L - 1" using eq r by linarith
  qed
  show "i * cs \<le> L" using z nz L by (cases "L = 0") auto
qed

lemma hi_nat:
  "nat (if int a * int k + int k > int n then int n else int a * int k + int k)
     = min ((a + 1) * k) n"
proof -
  have e: "int a * int k + int k = int ((a + 1) * k)" by (simp add: algebra_simps)
  show ?thesis unfolding e by (simp add: min_def del: of_nat_mult of_nat_add)
qed

lemma go_slice_chunk_range:
  assumes cs: "1 \<le> cs" and i: "0 \<le> i" and lo: "i * cs \<le> len body"
  shows "go_slice body (i * cs) (if i * cs + cs > len body then len body else i * cs + cs)
           = Inr (chunk_range body (nat cs) (nat i + 1))"
proof -
  let ?hi = "(if i * cs + cs > len body then len body else i * cs + cs)"
  have lo0: "0 \<le> i * cs" using cs i by simp
  have b: "0 \<le> i * cs \<and> i * cs \<le> ?hi \<and> ?hi \<le> len body" using lo lo0 cs by simp
  have n1: "nat (i * cs) = nat i * nat cs" using cs i by (simp add: nat_mult_distrib)
  have ic: "i = int (nat i)" "cs = int (nat cs)" using cs i by simp_all
  have n2: "nat ?hi = min ((nat i + 1) * nat cs) (length body)"
    using hi_nat[where a = "nat i" and k = "nat cs" and n = "length body"] unfolding len_def
    by (simp only: ic[symmetric])
  have n3: "nat (?hi - i * cs) = nat ?hi - nat (i * cs)" using b by linarith
  have "go_slice body (i * cs) ?hi = Inr (take (nat (?hi - i * cs)) (drop (nat (i * cs)) body))"
    unfolding go_slice_def using b by (simp only: if_True simp_thms)
  also have "take (nat (?hi - i * cs)) (drop (nat (i * cs)) body)
      = drop (nat (i * cs)) (take (nat ?hi) body)"
    by (simp only: n3 drop_take)
  finally show ?thesis unfolding chunk_range_def by (simp only: n1 n2 add_diff_cancel_right')
qed

lemma go_rem_nonneg:
  assumes "0 \<le> i" "i < 2 ^ 63" "0 < l"
  shows "go_rem i l = Inr (i mod l)"
proof -
  have s: "sgn i * (\<bar>i\<bar> mod \<bar>l\<bar>) = i mod l"
  proof (cases "i = 0")
    case True
    then show ?thesis by simp
  next
    case False
    then have "0 < i" using assms by simp
    then show ?thesis using assms by simp
  qed
  have m0: "0 \<le> i mod l" using assms by simp
  have "i mod l \<le> i" using assms by (simp add: zmod_le_nonneg_dividend)
  then have r: "int64 (i mod l) = i mod l" using m0 assms by (intro int64_id) linarith+
  have l0: "l \<noteq> 0" using assms by simp
  have "go_rem i l = Inr (int64 (sgn i * (\<bar>i\<bar> mod \<bar>l\<bar>)))"
    unfolding go_rem_def using l0 by (simp only: if_False)
  then show ?thesis by (simp only: s r)
qed

lemma EncryptAES_ok:
  assumes "length key \<in> {16, 24, 32}" "NonceSize \<le> length rnd"
  shows "EncryptAES g rnd plaintext key
           = Inr (take NonceSize rnd @ Seal g key (take NonceSize rnd) plaintext)"
  using assms unfolding EncryptAES_def by (simp add: Let_def)

lemma fragmentStep_ok:
  assumes cs: "1 \<le> ClientConfig.ChunkSize c" and csmax: "ClientConfig.ChunkSize c < 2 ^ 63"
    and nowrap: "len body + ClientConfig.ChunkSize c - 1 < 2 ^ 63"
    and ups: "UpstreamServers c \<noteq> []"
    and enc: "Enabled (ClientConfig.Encryption c) \<Longrightarrow>
               length (ClientConfig.EncryptionKey c) \<in> {16, 24, 32} \<and> NonceSize \<le> length (rand_Reader env i)"
    and i: "0 \<le> i"
       "i < (if (len body + ClientConfig.ChunkSize c - 1) div ClientConfig.ChunkSize c = 0 then 1
             else (len body + ClientConfig.ChunkSize c - 1) div ClientConfig.ChunkSize c)"
  shows "fragmentStep g env c sid m u body hs n addr i =
     Inr (\<lparr> Chunk.SessionID = sid, SequenceNum = i + 1, Chunk.TotalChunks = n,
            Data = clientPayload g env c i (chunk_range body (nat (ClientConfig.ChunkSize c)) (nat i + 1)),
            Timestamp = time_Now env i, SourceClient = addr, Chunk.TargetURL = u,
            Chunk.Method = m, Chunk.Headers = hs \<rparr>,
          UpstreamServers c ! (nat i mod length (UpstreamServers c)))"
proof -
  let ?cs = "ClientConfig.ChunkSize c" and ?L = "len body"
  have L0: "0 \<le> ?L" by (simp add: len_def)
  note b = chunk_index_bound[OF cs L0 i]
  have lo0: "0 \<le> i * ?cs" using cs i by simp
  have ile: "i \<le> i * ?cs" using cs i by (simp add: mult_le_cancel_left1)
  have hi: "i * ?cs + ?cs < 2 ^ 63"
  proof (cases "?L = 0")
    case True
    then show ?thesis using b(3) csmax by simp
  next
    case False
    then show ?thesis using b(2) nowrap by linarith
  qed
  have i1: "i + 1 < 2 ^ 63" using ile hi cs by linarith
  have start: "go_mul i ?cs = i * ?cs"
    unfolding go_mul_def by (rule int64_id) (use lo0 hi cs in linarith)+
  have end0: "go_add (i * ?cs) ?cs = i * ?cs + ?cs"
    unfolding go_add_def by (rule int64_id) (use lo0 hi cs in linarith)+
  have seq: "go_add i 1 = i + 1"
    unfolding go_add_def by (rule int64_id) (use i i1 in linarith)+
  note sl = go_slice_chunk_range[OF cs i(1) b(1)]
  let ?sliced = "chunk_range body (nat ?cs) (nat i + 1)"
  have cd: "(if len ?sliced = 0 \<and> i = 0 then [] else ?sliced) = ?sliced"
    by (auto simp: len_def)
  have e: "(if Enabled (ClientConfig.Encryption c)
            then (case EncryptAES g (rand_Reader env i) ?sliced (ClientConfig.EncryptionKey c) of
                    Inl err \<Rightarrow> Inl (ErrWrapped ''encryption failed'' err)
                  | Inr encrypted \<Rightarrow> Inr encrypted)
            else Inr ?sliced) = Inr (clientPayload g env c i ?sliced)"
  proof (cases "Enabled (ClientConfig.Encryption c)")
    case True
    then show ?thesis using enc EncryptAES_ok[of "ClientConfig.EncryptionKey c" "rand_Reader env i" g ?sliced]
      by (simp add: clientPayload_def)
  next
    case False
    then show ?thesis by (simp add: clientPayload_def)
  qed
  have lu: "0 < len (UpstreamServers c)" using ups by (simp add: len_def)
  have rem: "go_rem i (len (UpstreamServers c)) = Inr (i mod len (UpstreamServers c))"
    by (rule go_rem_nonneg) (use i i1 lu in linarith)+
  have m: "0 \<le> i mod len (UpstreamServers c)" "i mod len (UpstreamServers c) < len (UpstreamServers c)"
    using lu by simp_all
  have nm: "nat (i mod len (UpstreamServers c)) = nat i mod length (UpstreamServers c)"
    using i(1) by (simp add: len_def nat_mod_distrib)
  have idx: "go_index (UpstreamServers c) (i mod len (UpstreamServers c))
               = Inr (UpstreamServers c ! (nat i mod length (UpstreamServers c)))"
    unfolding go_index_def using m by (simp add: nm)
  show ?thesis
    unfolding fragmentStep_def
    by (simp only: start end0 sl Let_def sum.case cd e seq rem idx)
qed

lemma fragmentAndSend_eq:
  assumes cs: "1 \<le> ClientConfig.ChunkSize c" and csmax: "ClientConfig.ChunkSize c < 2 ^ 63"
    and nowrap: "len body + ClientConfig.ChunkSize c - 1 < 2 ^ 63"
    and ups: "UpstreamServers c \<noteq> []"
    and enc: "Enabled (ClientConfig.Encryption c) \<Longrightarrow>
               length (ClientConfig.EncryptionKey c) \<in> {16, 24, 32} \<and> (\<forall>i. NonceSize \<le> length (rand_Reader env i))"
  shows "fragmentAndSend g env c sid m u body hs =
           (map (clientChunk g env c sid m u body hs (clientTotal c body)
                   (''client:'' @ Itoa (DownstreamPort c)))
              [0..clientTotal c body - 1], None)"
proof -
  have L0: "0 \<le> len body" by (simp add: len_def)
  have q: "go_quo (go_sub (go_add (len body) (ClientConfig.ChunkSize c)) 1) (ClientConfig.ChunkSize c)
             = Inr ((len body + ClientConfig.ChunkSize c - 1) div ClientConfig.ChunkSize c)"
    by (rule total_chunks0[OF cs L0 nowrap])
  have step: "fragmentStep g env c sid m u body hs (clientTotal c body)
                 (''client:'' @ Itoa (DownstreamPort c)) j
              = Inr (clientChunk g env c sid m u body hs (clientTotal c body)
                 (''client:'' @ Itoa (DownstreamPort c)) j)"
    if "0 \<le> j" "j < clientTotal c body" for j
    unfolding clientChunk_def
    by (rule fragmentStep_ok[OF cs csmax nowrap ups]) (use enc that in \<open>auto simp: clientTotal_def\<close>)
  have "forLoop (fragmentStep g env c sid m u body hs (clientTotal c body)
                 (''client:'' @ Itoa (DownstreamPort c))) (clientTotal c body) 0 []
        = ([] @ map (clientChunk g env c sid m u body hs (clientTotal c body)
                 (''client:'' @ Itoa (DownstreamPort c))) [0..clientTotal c body - 1], None)"
    by (rule forLoop_all) (use step in auto)
  then show ?thesis
    unfolding fragmentAndSend_def q by (simp add: Let_def clientTotal_def)
qed

lemma clientTotal_ceiling:
  assumes cs: "1 \<le> ClientConfig.ChunkSize c"
  shows "clientTotal c body = max 1 \<lceil>real (length body) / real_of_int (ClientConfig.ChunkSize c)\<rceil>"
proof -
  have p: "0 < ClientConfig.ChunkSize c" using cs by simp
  have "\<lceil>real_of_int (len body) / real_of_int (ClientConfig.ChunkSize c)\<rceil>
          = (len body + ClientConfig.ChunkSize c - 1) div ClientConfig.ChunkSize c"
    by (rule ceiling_div_int[OF p])
  moreover have "0 \<le> (len body + ClientConfig.ChunkSize c - 1) div ClientConfig.ChunkSize c"
    using cs by (simp add: pos_imp_zdiv_nonneg_iff len_def)
  ultimately show ?thesis unfolding clientTotal_def by (simp add: len_def max_def)
qed

lemma clientTotal_exact:
  assumes cs: "1 \<le> ClientConfig.ChunkSize c" and k: "1 \<le> k" and l: "length body = k * nat (ClientConfig.ChunkSize c)"
  shows "clientTotal c body = int k"
proof -
  have e: "len body + ClientConfig.ChunkSize c - 1 = (ClientConfig.ChunkSize c - 1) + int k * ClientConfig.ChunkSize c"
    using cs l by (simp add: len_def)
  have "((ClientConfig.ChunkSize c - 1) + int k * ClientConfig.ChunkSize c) div ClientConfig.ChunkSize c
          = int k + (ClientConfig.ChunkSize c - 1) div ClientConfig.ChunkSize c"
    by (rule div_mult_self1) (use cs in simp)
  moreover have "(ClientConfig.ChunkSize c - 1) div ClientConfig.ChunkSize c = 0"
    using cs by (simp add: div_pos_pos_trivial)
  ultimately have "(len body + ClientConfig.ChunkSize c - 1) div ClientConfig.ChunkSize c = int k"
    by (simp only: e add_0_right)
  then show ?thesis using k unfolding clientTotal_def by simp
qed

lemma clientTotal_plus_one:
  assumes cs: "1 \<le> ClientConfig.ChunkSize c" and l: "length body = k * nat (ClientConfig.ChunkSize c) + 1"
  shows "clientTotal c body = int k + 1"
proof -
  have "len body + ClientConfig.ChunkSize c - 1 = 0 + (int k + 1) * ClientConfig.ChunkSize c"
    using cs l by (simp add: len_def algebra_simps)
  then have "(len body + ClientConfig.ChunkSize c - 1) div ClientConfig.ChunkSize c = int k + 1"
    using cs by (simp only: div_mult_self2) simp
  then show ?thesis unfolding clientTotal_def by simp
qed

lemma chunk_range_last_full:
  assumes "1 \<le> k" "length body = k * cs"
  shows "length (chunk_range body cs k) = cs"
  using assms unfolding chunk_range_def by (simp add: diff_mult_distrib)

lemma chunk_range_last_one:
  assumes "1 \<le> cs" "length body = k * cs + 1"
  shows "length (chunk_range body cs (k + 1)) = 1"
  using assms unfolding chunk_range_def by (simp add: min_def)

section \<open>Client fragmentation\<close>

text \<open>
  Fragmentation where nothing wraps around: for a chunk size of at least 1 that is an
  \<^verbatim>\<open>int\<close>, a dividend \<open>|body| + chunk_size - 1\<close> that is still an \<^verbatim>\<open>int\<close>, a non-empty list of
  upstreams and, with encryption enabled, a key of an AES size and twelve random bytes for
  every nonce, \<open>fragmentAndSend\<close> returns without an error; the number of chunks it sends
  is the ceiling of \<open>|body| / chunk_size\<close>, and 1 for an empty body; chunk \<open>i\<close> (from 1) has
  sequence number \<open>i\<close>, the number of chunks as its total, and carries the bytes from
  \<open>(i - 1) * chunk_size\<close> up to \<open>min (i * chunk_size) |body|\<close>, sealed under the nonce read in
  its iteration when encryption is enabled.
\<close>

lemma fragmentAndSend_chunks:
  assumes cs: "1 \<le> ClientConfig.ChunkSize c" and csmax: "ClientConfig.ChunkSize c < 2 ^ 63"
    and nowrap: "len body + ClientConfig.ChunkSize c - 1 < 2 ^ 63"
    and ups: "UpstreamServers c \<noteq> []"
    and enc: "Enabled (ClientConfig.Encryption c) \<Longrightarrow>
               length (ClientConfig.EncryptionKey c) \<in> {16, 24, 32}
               \<and> (\<forall>i. NonceSize \<le> length (rand_Reader env i))"
  shows "\<exists>sent. fragmentAndSend g env c sid m u body hs = (sent, None)
      \<and> int (length sent) = max 1 \<lceil>real (length body) / real_of_int (ClientConfig.ChunkSize c)\<rceil>
      \<and> (\<forall>i. 1 \<le> i \<and> i \<le> length sent \<longrightarrow>
             SequenceNum (fst (sent ! (i - 1))) = int i
           \<and> Chunk.TotalChunks (fst (sent ! (i - 1))) = int (length sent)
           \<and> Data (fst (sent ! (i - 1)))
               = clientPayload g env c (int i - 1)
                   (chunk_range body (nat (ClientConfig.ChunkSize c)) i))
      \<and> (\<forall>k. 1 \<le> k \<and> length body = k * nat (ClientConfig.ChunkSize c) \<longrightarrow>
             length sent = k
           \<and> length (chunk_range body (nat (ClientConfig.ChunkSize c)) k)
               = nat (ClientConfig.ChunkSize c))
      \<and> (\<forall>k. length body = k * nat (ClientConfig.ChunkSize c) + 1 \<longrightarrow>
             length sent = k + 1
           \<and> length (chunk_range body (nat (ClientConfig.ChunkSize c)) (k + 1)) = 1)"
proof -
  let ?n = "clientTotal c body"
  let ?mk = "clientChunk g env c sid m u body hs ?n (''client:'' @ Itoa (DownstreamPort c))"
  let ?sent = "map ?mk [0..?n - 1]"
  have eq: "fragmentAndSend g env c sid m u body hs = (?sent, None)"
    by (rule fragmentAndSend_eq[OF cs csmax nowrap ups enc])
  have ceil: "?n = max 1 \<lceil>real (length body) / real_of_int (ClientConfig.ChunkSize c)\<rceil>"
    by (rule clientTotal_ceiling[OF cs])
  have n1: "1 \<le> ?n" using ceil by simp
  have ln: "int (length ?sent) = ?n" using n1 by simp
  have nth: "?sent ! (i - 1) = ?mk (int i - 1)" if "1 \<le> i" "i \<le> length ?sent" for i
  proof -
    have "i - 1 < length [0..?n - 1]" using that by simp
    moreover have "[0..?n - 1] ! (i - 1) = int i - 1"
      using that n1 by (simp add: nth_upto of_nat_diff)
    ultimately show ?thesis by (simp only: nth_map)
  qed
  have each: "SequenceNum (fst (?sent ! (i - 1))) = int i
           \<and> Chunk.TotalChunks (fst (?sent ! (i - 1))) = int (length ?sent)
           \<and> Data (fst (?sent ! (i - 1)))
               = clientPayload g env c (int i - 1)
                   (chunk_range body (nat (ClientConfig.ChunkSize c)) i)"
    if "1 \<le> i \<and> i \<le> length ?sent" for i
  proof -
    have "nat (int i - 1) + 1 = i" using that by linarith
    then show ?thesis
      unfolding nth[of i, OF conjunct1[OF that] conjunct2[OF that]] ln
      by (simp add: clientChunk_def)
  qed
  have full: "length ?sent = k
           \<and> length (chunk_range body (nat (ClientConfig.ChunkSize c)) k)
               = nat (ClientConfig.ChunkSize c)"
    if "1 \<le> k \<and> length body = k * nat (ClientConfig.ChunkSize c)" for k
  proof -
    have "?n = int k" using clientTotal_exact[OF cs] that by blast
    then have "length ?sent = k" using ln by simp
    moreover have "length (chunk_range body (nat (ClientConfig.ChunkSize c)) k)
                     = nat (ClientConfig.ChunkSize c)"
      using chunk_range_last_full that by blast
    ultimately show ?thesis by simp
  qed
  have one: "length ?sent = k + 1
           \<and> length (chunk_range body (nat (ClientConfig.ChunkSize c)) (k + 1)) = 1"
    if "length body = k * nat (ClientConfig.ChunkSize c) + 1" for k
  proof -
    have "?n = int k + 1" using clientTotal_plus_one[OF cs that] .
    then have "length ?sent = k + 1" using ln by simp
    moreover have "length (chunk_range body (nat (ClientConfig.ChunkSize c)) (k + 1)) = 1"
      by (rule chunk_range_last_one[OF _ that]) (use cs in simp)
    ultimately show ?thesis by simp
  qed
  have lc: "int (length ?sent) = max 1 \<lceil>real (length body) / real_of_int (ClientConfig.ChunkSize c)\<rceil>"
    using ln ceil by simp
  show ?thesis
    using eq lc each full one by blast
qed

lemma demoKey_length: "length demoKey = 32"
  by (simp add: demoKey_def)

lemma fragmentAndSend_chunks_example:
  "1 \<le> ClientConfig.ChunkSize (demoClient 2 True)
   \<and> ClientConfig.ChunkSize (demoClient 2 True) < 2 ^ 63
   \<and> len [1, 2, 3 :: byte] + ClientConfig.ChunkSize (demoClient 2 True) - 1 < 2 ^ 63
   \<and> UpstreamServers (demoClient 2 True) \<noteq> []
   \<and> Enabled (ClientConfig.Encryption (demoClient 2 True))
   \<and> length (ClientConfig.EncryptionKey (demoClient 2 True)) \<in> {16, 24, 32}
   \<and> NonceSize \<le> length (rand_Reader (demoEnv 0) 5)
   \<and> length (fst (fragmentAndSend shape_gcm (demoEnv 0) (demoClient 2 True) ''s1'' ''POST''
                     ''http://echo.test/'' [1, 2, 3] [])) = 2"
proof -
  have h1: "1 \<le> ClientConfig.ChunkSize (demoClient 2 True)" by (simp add: demoClient_def)
  have h2: "ClientConfig.ChunkSize (demoClient 2 True) < 2 ^ 63" by (simp add: demoClient_def)
  have h3: "len [1, 2, 3 :: byte] + ClientConfig.ChunkSize (demoClient 2 True) - 1 < 2 ^ 63"
    by (simp add: demoClient_def len_def)
  have h4: "UpstreamServers (demoClient 2 True) \<noteq> []" by (simp add: demoClient_def)
  have h5: "length (ClientConfig.EncryptionKey (demoClient 2 True)) \<in> {16, 24, 32}
               \<and> (\<forall>i. NonceSize \<le> length (rand_Reader (demoEnv 0) i))"
    by (simp add: demoClient_def demoKey_length demoEnv_def NonceSize_def)
  have h6: "Enabled (ClientConfig.Encryption (demoClient 2 True))"
    by (simp add: demoClient_def demoEncryption_def)
  obtain sent where
    s: "fragmentAndSend shape_gcm (demoEnv 0) (demoClient 2 True) ''s1'' ''POST''
          ''http://echo.test/'' [1, 2, 3] [] = (sent, None)"
    and l: "int (length sent)
              = max 1 \<lceil>real (length [1, 2, 3 :: byte])
                        / real_of_int (ClientConfig.ChunkSize (demoClient 2 True))\<rceil>"
    using fragmentAndSend_chunks[OF h1 h2 h3 h4 h5, of shape_gcm "''s1''" "''POST''"
        "''http://echo.test/''" "[]"] by blast
  have "\<lceil>real (length [1, 2, 3 :: byte])
           / real_of_int (ClientConfig.ChunkSize (demoClient 2 True))\<rceil> = 2"
    by (simp add: demoClient_def ceiling_div_int)
  then have "length sent = 2" using l by simp
  then show ?thesis using s h1 h2 h3 h4 h5 h6 by simp
qed

text \<open>
  C2. The claim has, for every body and every chunk size of at least 1, as many chunks as
  the ceiling of \<open>|body| / chunk_size\<close>, and 1 at the least. The code computes the ceiling as
  \<open>(len(body) + ChunkSize - 1) / ChunkSize\<close> in the wrapping \<^verbatim>\<open>int\<close>: with the largest chunk
  size an \<^verbatim>\<open>int\<close> holds and a body of two bytes the dividend is \<open>-2^63\<close> and the quotient
  \<open>-1\<close>, which the guard for 0 lets through; the loop does not run, nothing is sent, and
  the function returns no error, where the ceiling is 1.
\<close>

theorem fragmentAndSend_overflow:
  "1 \<le> ClientConfig.ChunkSize (demoClient 9223372036854775807 False)
   \<and> fragmentAndSend shape_gcm (demoEnv 0) (demoClient 9223372036854775807 False) ''s1'' ''POST''
        ''http://echo.test/'' [1, 2] [] = ([], None)
   \<and> max 1 \<lceil>real (length [1, 2 :: byte])
              / real_of_int (ClientConfig.ChunkSize (demoClient 9223372036854775807 False))\<rceil> = 1"
proof -
  have "\<lceil>real (length [1, 2 :: byte])
           / real_of_int (ClientConfig.ChunkSize (demoClient 9223372036854775807 False))\<rceil> = 1"
    by (simp add: demoClient_def ceiling_div_int)
  moreover have "fragmentAndSend shape_gcm (demoEnv 0) (demoClient 9223372036854775807 False)
        ''s1'' ''POST'' ''http://echo.test/'' [1, 2] [] = ([], None)"
    by (simp add: fragmentAndSend_def demoClient_def go_quo_def go_sub_def go_add_def int64_def
        len_def forLoop.simps)
  ultimately show ?thesis by (simp add: demoClient_def)
qed

section \<open>Client reassembly\<close>

lemma recorded_snoc: "recorded (xs @ [x]) = (recorded xs)(SequenceNum x \<mapsto> x)"
  by (simp add: recorded_def)

lemma dom_recorded: "dom (recorded xs) = SequenceNum ` set xs"
proof (induction xs rule: rev_induct)
  case Nil
  then show ?case by (simp add: recorded_def)
next
  case (snoc x xs)
  have "dom ((recorded xs)(SequenceNum x \<mapsto> x)) = insert (SequenceNum x) (dom (recorded xs))"
    by simp
  then show ?case using snoc by (simp only: recorded_snoc set_append list.set image_Un image_insert image_empty Un_insert_right Un_empty_right)
qed

lemma card_dom_recorded:
  assumes "inj_on SequenceNum (set xs)" "distinct xs"
  shows "card (dom (recorded xs)) = length xs"
  using assms by (simp add: dom_recorded card_image distinct_card)

lemma recorded_lookup:
  "inj_on SequenceNum (set xs) \<Longrightarrow> x \<in> set xs \<Longrightarrow> recorded xs (SequenceNum x) = Some x"
proof (induction xs rule: rev_induct)
  case Nil
  then show ?case by simp
next
  case (snoc y ys)
  show ?case
  proof (cases "x = y")
    case True
    then show ?thesis by (simp add: recorded_snoc)
  next
    case False
    then have xin: "x \<in> set ys" using snoc.prems(2) by simp
    have "SequenceNum x \<noteq> SequenceNum y"
      using snoc.prems False by (auto simp: inj_on_def)
    moreover have "inj_on SequenceNum (set ys)"
      using snoc.prems(1) by (auto simp: inj_on_def)
    ultimately show ?thesis using snoc.IH xin by (simp add: recorded_snoc)
  qed
qed

lemma concatChunks_all:
  "(\<And>i. lo \<le> i \<Longrightarrow> i \<le> n \<Longrightarrow> \<exists>chunk. table i = Some chunk \<and> Data chunk = d i) \<Longrightarrow>
   concatChunks table n lo acc = Inr (acc @ concat (map d [lo..n]))"
proof (induction table n lo acc rule: concatChunks.induct)
  case (1 chunks totalChunks i acc)
  show ?case
  proof (cases "i \<le> totalChunks")
    case True
    obtain chunk where c: "chunks i = Some chunk" "Data chunk = d i"
      using 1(2)[of i] True by auto
    have "concatChunks chunks totalChunks (i + 1) (acc @ Data chunk)
            = Inr ((acc @ Data chunk) @ concat (map d [i + 1..totalChunks]))"
      using 1(1)[OF True c(1)] 1(2) by simp
    moreover have "[i..totalChunks] = i # [i + 1..totalChunks]"
      using True by (simp add: upto_rec1)
    ultimately show ?thesis
      using True c by (simp add: concatChunks.simps[of chunks totalChunks i acc])
  next
    case False
    then show ?thesis by (simp add: concatChunks.simps[of chunks totalChunks i acc])
  qed
qed

lemma concat_chunk_ranges_take:
  "concat (map (\<lambda>i. chunk_range body cs (nat i)) [1..int k]) = take (k * cs) body"
proof (induction k)
  case 0
  then show ?case by simp
next
  case (Suc k)
  have u: "[1..int (Suc k)] = [1..int k] @ [int k + 1]"
    using upto_rec2[of 1 "int (Suc k)"] by simp
  have r: "chunk_range body cs (Suc k) = take cs (drop (k * cs) body)"
    unfolding chunk_range_def by (simp add: drop_take min_def)
  have "take (k * cs) body @ take cs (drop (k * cs) body) = take (k * cs + cs) body"
    by (simp add: take_add)
  then show ?case using Suc u r by (simp add: nat_add_distrib add.commute)
qed

lemma concat_chunk_ranges:
  assumes cs: "1 \<le> ClientConfig.ChunkSize c"
  shows "concat (map (\<lambda>i. chunk_range body (nat (ClientConfig.ChunkSize c)) (nat i))
                   [1..clientTotal c body]) = body"
proof -
  let ?cs = "ClientConfig.ChunkSize c" and ?n = "clientTotal c body"
  let ?q = "(len body + ?cs - 1) div ?cs" and ?r = "(len body + ?cs - 1) mod ?cs"
  have eq: "?q * ?cs + ?r = len body + ?cs - 1" by simp
  have r: "0 \<le> ?r" "?r < ?cs" using cs by simp_all
  have q0: "0 \<le> ?q" using cs by (simp add: pos_imp_zdiv_nonneg_iff len_def)
  have qn: "?q \<le> ?n" unfolding clientTotal_def by simp
  have n0: "0 \<le> ?n" unfolding clientTotal_def using q0 by simp
  have "len body \<le> ?q * ?cs" using eq r by linarith
  also have "\<dots> \<le> ?n * ?cs" using qn cs by (simp add: mult_right_mono)
  finally have "len body \<le> ?n * ?cs" .
  then have "int (length body) \<le> int (nat ?n * nat ?cs)"
    using n0 cs by (simp add: len_def)
  then have cover: "length body \<le> nat ?n * nat ?cs" by (simp only: of_nat_le_iff)
  have "concat (map (\<lambda>i. chunk_range body (nat ?cs) (nat i)) [1..int (nat ?n)])
          = take (nat ?n * nat ?cs) body"
    by (rule concat_chunk_ranges_take)
  then show ?thesis using cover n0 by simp
qed

lemma clientReceive_record:
  assumes off: "\<not> Enabled (ClientConfig.Encryption (ProxyClient.config cl))"
    and s: "pendingSessions cl (Chunk.SessionID x) = Some s"
  shows "clientReceive g cl (asRequest x) =
     (if int (card (dom ((PendingSession.Chunks s)(SequenceNum x \<mapsto> x)))) = Chunk.TotalChunks x
      then cl\<lparr>pendingSessions :=
             ((pendingSessions cl)
                (Chunk.SessionID x \<mapsto>
                   s\<lparr>PendingSession.Chunks := (PendingSession.Chunks s)(SequenceNum x \<mapsto> x),
                     PendingSession.TotalChunks := Chunk.TotalChunks x\<rparr>))
                (PendingSession.SessionID s \<mapsto>
                   assembleResponse
                     (s\<lparr>PendingSession.Chunks := (PendingSession.Chunks s)(SequenceNum x \<mapsto> x),
                        PendingSession.TotalChunks := Chunk.TotalChunks x\<rparr>))\<rparr>
      else cl\<lparr>pendingSessions :=
             (pendingSessions cl)
                (Chunk.SessionID x \<mapsto>
                   s\<lparr>PendingSession.Chunks := (PendingSession.Chunks s)(SequenceNum x \<mapsto> x),
                     PendingSession.TotalChunks := Chunk.TotalChunks x\<rparr>)\<rparr>)"
  unfolding clientReceive_def handleResponseChunk_def asRequest_def
  using assms by (simp add: Let_def)

lemma receive_incomplete:
  assumes off: "\<not> Enabled (ClientConfig.Encryption (ProxyClient.config cl))"
    and s0: "pendingSessions cl sid = Some s0" "PendingSession.Chunks s0 = Map.empty"
  shows "distinct xs \<Longrightarrow> inj_on SequenceNum (set xs) \<Longrightarrow>
         (\<And>x. x \<in> set xs \<Longrightarrow> Chunk.SessionID x = sid \<and> Chunk.TotalChunks x = n) \<Longrightarrow>
         int (length xs) < n \<Longrightarrow>
         fold (\<lambda>r cl. clientReceive g cl r) (map asRequest xs) cl
           = (if xs = [] then cl
              else cl\<lparr>pendingSessions :=
                     (pendingSessions cl)
                       (sid \<mapsto> s0\<lparr>PendingSession.Chunks := recorded xs,
                                  PendingSession.TotalChunks := n\<rparr>)\<rparr>)"
proof (induction xs rule: rev_induct)
  case Nil
  then show ?case by simp
next
  case (snoc y ys)
  let ?f = "\<lambda>r cl. clientReceive g cl r"
  let ?cl' = "fold ?f (map asRequest ys) cl"
  let ?s' = "(if ys = [] then s0
              else s0\<lparr>PendingSession.Chunks := recorded ys, PendingSession.TotalChunks := n\<rparr>)"
  have d: "distinct ys" using snoc.prems(1) by simp
  have i: "inj_on SequenceNum (set ys)"
    by (rule inj_on_subset[OF snoc.prems(2)]) auto
  have l: "int (length ys) < n" using snoc.prems(4) by simp
  have ih: "?cl' = (if ys = [] then cl
                    else cl\<lparr>pendingSessions :=
                           (pendingSessions cl)
                             (sid \<mapsto> s0\<lparr>PendingSession.Chunks := recorded ys,
                                        PendingSession.TotalChunks := n\<rparr>)\<rparr>)"
    by (rule snoc.IH[OF d i _ l]) (use snoc.prems(3) in simp)
  have y: "Chunk.SessionID y = sid" "Chunk.TotalChunks y = n" using snoc.prems(3)[of y] by simp_all
  have off': "\<not> Enabled (ClientConfig.Encryption (ProxyClient.config ?cl'))"
    using off unfolding ih by simp
  have s': "pendingSessions ?cl' (Chunk.SessionID y) = Some ?s'"
    unfolding ih y using s0 by simp
  have ch: "PendingSession.Chunks ?s' = recorded ys"
    using s0 by (simp add: recorded_def)
  have card: "int (card (dom ((recorded ys)(SequenceNum y \<mapsto> y)))) \<noteq> n"
  proof -
    have "card (dom (recorded (ys @ [y]))) = length (ys @ [y])"
      by (rule card_dom_recorded) (use snoc.prems in simp_all)
    then show ?thesis using snoc.prems(4) by (simp add: recorded_snoc)
  qed
  have step: "clientReceive g ?cl' (asRequest y)
      = ?cl'\<lparr>pendingSessions :=
             (pendingSessions ?cl')
                (sid \<mapsto> ?s'\<lparr>PendingSession.Chunks := (recorded ys)(SequenceNum y \<mapsto> y),
                             PendingSession.TotalChunks := n\<rparr>)\<rparr>"
    unfolding clientReceive_record[OF off' s'] ch y using card by (simp only: if_False)
  have "fold ?f (map asRequest (ys @ [y])) cl = clientReceive g ?cl' (asRequest y)"
    by simp
  also have "\<dots> = cl\<lparr>pendingSessions :=
                     (pendingSessions cl)
                       (sid \<mapsto> s0\<lparr>PendingSession.Chunks := recorded (ys @ [y]),
                                  PendingSession.TotalChunks := n\<rparr>)\<rparr>"
    unfolding step unfolding ih by (simp add: recorded_snoc)
  finally show ?case by simp
qed

lemma receive_complete:
  assumes off: "\<not> Enabled (ClientConfig.Encryption (ProxyClient.config cl))"
    and s0: "pendingSessions cl sid = Some s0" "PendingSession.Chunks s0 = Map.empty"
            "ResponseChan s0 = None" "PendingSession.SessionID s0 = sid"
    and xs: "distinct xs" "inj_on SequenceNum (set xs)"
            "\<And>x. x \<in> set xs \<Longrightarrow> Chunk.SessionID x = sid \<and> Chunk.TotalChunks x = n"
            "int (length xs) = n" "xs \<noteq> []"
    and whole: "concatChunks (recorded xs) n 1 [] = Inr body"
  shows "pendingSessions (fold (\<lambda>r cl. clientReceive g cl r) (map asRequest xs) cl) sid
           = Some (s0\<lparr>PendingSession.Chunks := recorded xs,
                      PendingSession.TotalChunks := n,
                      ResponseChan := Some \<lparr>StatusCode = 200, ProxyResponse.Headers = [],
                                           Body = body, Error = None\<rparr>\<rparr>)"
proof -
  obtain ys y where split: "xs = ys @ [y]" using xs(5) by (cases xs rule: rev_cases) auto
  let ?f = "\<lambda>r cl. clientReceive g cl r"
  let ?cl' = "fold ?f (map asRequest ys) cl"
  let ?s' = "(if ys = [] then s0
              else s0\<lparr>PendingSession.Chunks := recorded ys, PendingSession.TotalChunks := n\<rparr>)"
  have d: "distinct ys" using xs(1) unfolding split by simp
  have i: "inj_on SequenceNum (set ys)"
    by (rule inj_on_subset[OF xs(2)]) (auto simp: split)
  have l: "int (length ys) < n" using xs(4) unfolding split by simp
  have ih: "?cl' = (if ys = [] then cl
                    else cl\<lparr>pendingSessions :=
                           (pendingSessions cl)
                             (sid \<mapsto> s0\<lparr>PendingSession.Chunks := recorded ys,
                                        PendingSession.TotalChunks := n\<rparr>)\<rparr>)"
    by (rule receive_incomplete[OF off s0(1,2) d i _ l]) (use xs(3) split in simp)
  have y: "Chunk.SessionID y = sid" "Chunk.TotalChunks y = n" using xs(3)[of y] split by simp_all
  have off': "\<not> Enabled (ClientConfig.Encryption (ProxyClient.config ?cl'))"
    using off unfolding ih by simp
  have s': "pendingSessions ?cl' (Chunk.SessionID y) = Some ?s'"
    unfolding ih y using s0 by simp
  have ch: "PendingSession.Chunks ?s' = recorded ys"
    using s0 by (simp add: recorded_def)
  have sid': "PendingSession.SessionID ?s' = sid" using s0 by simp
  have card: "int (card (dom ((recorded ys)(SequenceNum y \<mapsto> y)))) = n"
  proof -
    have "card (dom (recorded (ys @ [y]))) = length (ys @ [y])"
      by (rule card_dom_recorded) (use xs split in simp_all)
    then show ?thesis using xs(4) split by (simp add: recorded_snoc)
  qed
  let ?full = "?s'\<lparr>PendingSession.Chunks := (recorded ys)(SequenceNum y \<mapsto> y),
                    PendingSession.TotalChunks := n\<rparr>"
  have step: "clientReceive g ?cl' (asRequest y)
      = ?cl'\<lparr>pendingSessions :=
             ((pendingSessions ?cl')(sid \<mapsto> ?full))(sid \<mapsto> assembleResponse ?full)\<rparr>"
    unfolding clientReceive_record[OF off' s'] ch y sid' using card by (simp only: if_True simp_thms)
  have full: "?full = s0\<lparr>PendingSession.Chunks := recorded xs, PendingSession.TotalChunks := n\<rparr>"
    unfolding split by (simp add: recorded_snoc)
  have asm: "assembleResponse ?full
      = s0\<lparr>PendingSession.Chunks := recorded xs, PendingSession.TotalChunks := n,
            ResponseChan := Some \<lparr>StatusCode = 200, ProxyResponse.Headers = [],
                                 Body = body, Error = None\<rparr>\<rparr>"
    unfolding full assembleResponse_def using whole s0(3) by simp
  have "fold ?f (map asRequest xs) cl = clientReceive g ?cl' (asRequest y)"
    unfolding split by simp
  then show ?thesis unfolding step asm by simp
qed

lemma asRequest_inverse: "the (in_chunk (asRequest x)) = x"
  by (simp add: asRequest_def)

lemma arrivals_as_chunks:
  assumes "set arrivals = asRequest ` C" "distinct arrivals"
  shows "map asRequest (map (\<lambda>r. the (in_chunk r)) arrivals) = arrivals"
    and "set (map (\<lambda>r. the (in_chunk r)) arrivals) = C"
    and "distinct (map (\<lambda>r. the (in_chunk r)) arrivals)"
proof -
  have rt: "asRequest (the (in_chunk r)) = r" if "r \<in> set arrivals" for r
  proof -
    have "r \<in> asRequest ` C" using that by (simp only: assms(1))
    then obtain x where "r = asRequest x" "x \<in> C" by (rule imageE)
    then show ?thesis by (simp add: asRequest_inverse)
  qed
  have "map (\<lambda>r. asRequest (the (in_chunk r))) arrivals = arrivals"
    by (rule map_idI) (rule rt)
  then show "map asRequest (map (\<lambda>r. the (in_chunk r)) arrivals) = arrivals"
    by (simp add: comp_def)
  have "(\<lambda>r. the (in_chunk r)) ` asRequest ` C = C"
    by (simp add: image_image asRequest_inverse)
  then show "set (map (\<lambda>r. the (in_chunk r)) arrivals) = C"
    using assms(1) by simp
  have "inj_on (\<lambda>r. the (in_chunk r)) (set arrivals)"
  proof (rule inj_onI)
    fix r r' assume m: "r \<in> set arrivals" "r' \<in> set arrivals"
      and e: "the (in_chunk r) = the (in_chunk r')"
    have "r = asRequest (the (in_chunk r))" by (rule rt[OF m(1), symmetric])
    also have "\<dots> = asRequest (the (in_chunk r'))" by (simp only: e)
    also have "\<dots> = r'" by (rule rt[OF m(2)])
    finally show "r = r'" .
  qed
  then show "distinct (map (\<lambda>r. the (in_chunk r)) arrivals)"
    using assms(2) by (simp add: distinct_map)
qed

lemma clientChunk_fields:
  assumes off: "\<not> Enabled (ClientConfig.Encryption c)" and i: "0 \<le> i"
  shows "Chunk.SessionID (fst (clientChunk g env c sid m u body hs n addr i)) = sid"
    and "Chunk.TotalChunks (fst (clientChunk g env c sid m u body hs n addr i)) = n"
    and "SequenceNum (fst (clientChunk g env c sid m u body hs n addr i)) = i + 1"
    and "Data (fst (clientChunk g env c sid m u body hs n addr i))
           = chunk_range body (nat (ClientConfig.ChunkSize c)) (nat (i + 1))"
  using off i by (simp_all add: clientChunk_def clientPayload_def nat_add_distrib)

text \<open>
  The round trip where the fragmentation does not wrap around. With encryption disabled,
  a call of \<open>MakeRequest\<close> whose response listener receives, in any order and each once,
  the very chunks \<open>fragmentAndSend\<close> sent returns a response whose body is the original
  body: reassembly concatenates the payloads in ascending sequence order, whatever the
  order of arrival.
\<close>

lemma MakeRequest_round_trip:
  assumes cs: "1 \<le> ClientConfig.ChunkSize (ProxyClient.config c)"
    and csmax: "ClientConfig.ChunkSize (ProxyClient.config c) < 2 ^ 63"
    and nowrap: "len body + ClientConfig.ChunkSize (ProxyClient.config c) - 1 < 2 ^ 63"
    and ups: "UpstreamServers (ProxyClient.config c) \<noteq> []"
    and off: "\<not> Enabled (ClientConfig.Encryption (ProxyClient.config c))"
    and d: "distinct arrivals"
    and arr: "set arrivals
                = set (map (\<lambda>s. asRequest (fst s))
                         (fst (fragmentAndSend g env (ProxyClient.config c) sid m u body hs)))"
  shows "snd (snd (MakeRequest g env c sid now m u body hs arrivals))
           = Inr \<lparr>StatusCode = 200, ProxyResponse.Headers = [], Body = body, Error = None\<rparr>"
proof -
  let ?cfg = "ProxyClient.config c"
  let ?n = "clientTotal ?cfg body"
  let ?mk = "clientChunk g env ?cfg sid m u body hs ?n (''client:'' @ Itoa (DownstreamPort ?cfg))"
  let ?C = "(\<lambda>i. fst (?mk i)) ` {0..?n - 1}"
  let ?ys = "map (\<lambda>r. the (in_chunk r)) arrivals"
  let ?s0 = "\<lparr> PendingSession.SessionID = sid, RequestURL = u,
               PendingSession.Method = m, StartTime = now, ResponseChan = None,
               PendingSession.Chunks = Map.empty, PendingSession.TotalChunks = 0 \<rparr>"
  let ?c1 = "c\<lparr>pendingSessions := (pendingSessions c)(sid \<mapsto> ?s0)\<rparr>"
  have enc: "Enabled (ClientConfig.Encryption ?cfg) \<Longrightarrow>
               length (ClientConfig.EncryptionKey ?cfg) \<in> {16, 24, 32}
               \<and> (\<forall>i. NonceSize \<le> length (rand_Reader env i))"
    using off by simp
  have eq: "fragmentAndSend g env ?cfg sid m u body hs = (map ?mk [0..?n - 1], None)"
    by (rule fragmentAndSend_eq[OF cs csmax nowrap ups enc])
  have n1: "1 \<le> ?n" using clientTotal_ceiling[OF cs, of body] by simp
  have setarr: "set arrivals = asRequest ` ?C"
    unfolding arr eq by (simp add: image_image)
  note ys = arrivals_as_chunks[OF setarr d]
  have fields: "Chunk.SessionID x = sid \<and> Chunk.TotalChunks x = ?n"
    and canon: "x = fst (?mk (SequenceNum x - 1))"
    if "x \<in> ?C" for x
  proof -
    from that obtain i where mem: "i \<in> {0..?n - 1}" and x: "x = fst (?mk i)"
      by (rule imageE)
    have i: "0 \<le> i" using mem by simp
    show "Chunk.SessionID x = sid \<and> Chunk.TotalChunks x = ?n"
      unfolding x using clientChunk_fields(1,2)[OF off i] by simp
    have "SequenceNum (fst (?mk i)) - 1 = i" using clientChunk_fields(3)[OF off i] by simp
    then show "x = fst (?mk (SequenceNum x - 1))" unfolding x by (simp only:)
  qed
  have inj: "inj_on SequenceNum (set ?ys)"
  proof (rule inj_onI)
    fix x x' assume xm: "x \<in> set ?ys" "x' \<in> set ?ys"
      and e: "SequenceNum x = SequenceNum x'"
    have mem: "x \<in> ?C" "x' \<in> ?C" using xm unfolding ys(2) by this+
    have a: "x = fst (?mk (SequenceNum x - 1))" by (rule canon[OF mem(1)])
    have b: "x' = fst (?mk (SequenceNum x' - 1))" by (rule canon[OF mem(2)])
    show "x = x'" by (rule trans[OF a[unfolded e] b[symmetric]])
  qed
  have all: "Chunk.SessionID x = sid \<and> Chunk.TotalChunks x = ?n" if "x \<in> set ?ys" for x
  proof -
    have "x \<in> ?C" using that unfolding ys(2) .
    then show ?thesis by (rule fields)
  qed
  have injmk: "inj_on (\<lambda>i. fst (?mk i)) {0..?n - 1}"
  proof (rule inj_onI)
    fix i j assume "i \<in> {0..?n - 1}" "j \<in> {0..?n - 1}" and e: "fst (?mk i) = fst (?mk j)"
    then have ij: "0 \<le> i" "0 \<le> j" by simp_all
    have "i + 1 = SequenceNum (fst (?mk i))"
      by (rule clientChunk_fields(3)[OF off ij(1), symmetric])
    also have "\<dots> = SequenceNum (fst (?mk j))" by (simp only: e)
    also have "\<dots> = j + 1" by (rule clientChunk_fields(3)[OF off ij(2)])
    finally show "i = j" by simp
  qed
  have "card ?C = card {0..?n - 1}" by (rule card_image[OF injmk])
  then have cardC: "int (card ?C) = ?n" using n1 by simp
  have "length ?ys = card (set ?ys)" using ys(3) by (simp only: distinct_card)
  then have lenys: "int (length ?ys) = ?n" using cardC unfolding ys(2) by simp
  have ne: "?ys \<noteq> []"
  proof
    assume "?ys = []"
    then have "length ?ys = 0" by (simp only: list.size)
    then show False using lenys n1 by simp
  qed
  have slot: "\<exists>chunk. recorded ?ys i = Some chunk
                \<and> Data chunk = chunk_range body (nat (ClientConfig.ChunkSize ?cfg)) (nat i)"
    if "1 \<le> i" "i \<le> ?n" for i
  proof -
    let ?x = "fst (?mk (i - 1))"
    have i0: "0 \<le> i - 1" using that by simp
    have "?x \<in> ?C" using that by simp
    then have "?x \<in> set ?ys" unfolding ys(2) .
    then have "recorded ?ys (SequenceNum ?x) = Some ?x" by (rule recorded_lookup[OF inj])
    moreover have "SequenceNum ?x = i" using clientChunk_fields(3)[OF off i0] by simp
    moreover have "Data ?x = chunk_range body (nat (ClientConfig.ChunkSize ?cfg)) (nat i)"
      using clientChunk_fields(4)[OF off i0] by simp
    ultimately show ?thesis by simp
  qed
  have "concatChunks (recorded ?ys) ?n 1 []
          = Inr ([] @ concat (map (\<lambda>i. chunk_range body (nat (ClientConfig.ChunkSize ?cfg)) (nat i))
                                  [1..?n]))"
    by (rule concatChunks_all) (rule slot)
  then have whole: "concatChunks (recorded ?ys) ?n 1 [] = Inr body"
    using concat_chunk_ranges[OF cs, of body] by simp
  have off1: "\<not> Enabled (ClientConfig.Encryption (ProxyClient.config ?c1))" using off by simp
  have got: "pendingSessions (fold (\<lambda>r cl. clientReceive g cl r) (map asRequest ?ys) ?c1) sid
           = Some (?s0\<lparr>PendingSession.Chunks := recorded ?ys,
                       PendingSession.TotalChunks := ?n,
                       ResponseChan := Some \<lparr>StatusCode = 200, ProxyResponse.Headers = [],
                                            Body = body, Error = None\<rparr>\<rparr>)"
    by (rule receive_complete[OF off1 _ _ _ _ ys(3) inj all lenys ne whole]) simp_all
  show ?thesis
    unfolding MakeRequest_def Let_def eq using got unfolding ys(1) by simp
qed

lemma demo_fragments:
  "fst (fragmentAndSend shape_gcm (demoEnv 0) (demoClient 2 False) ''s1'' ''POST''
          ''http://echo.test/'' [1, 2, 3] [])
     = [(\<lparr> Chunk.SessionID = ''s1'', SequenceNum = 1, Chunk.TotalChunks = 2, Data = [1, 2],
           Timestamp = 0, SourceClient = ''client:7000'', Chunk.TargetURL = ''http://echo.test/'',
           Chunk.Method = ''POST'', Chunk.Headers = [] \<rparr>, ''u0''),
        (\<lparr> Chunk.SessionID = ''s1'', SequenceNum = 2, Chunk.TotalChunks = 2, Data = [3],
           Timestamp = 0, SourceClient = ''client:7000'', Chunk.TargetURL = ''http://echo.test/'',
           Chunk.Method = ''POST'', Chunk.Headers = [] \<rparr>, ''u1'')]"
  by (simp add: fragmentAndSend_def fragmentStep_def demoClient_def demoEncryption_def demoEnv_def
      go_quo_def go_rem_def go_sub_def go_add_def go_mul_def go_slice_def go_index_def int64_def
      len_def forLoop.simps Itoa_def digits10.simps Let_def)

lemma MakeRequest_round_trip_example:
  "1 \<le> ClientConfig.ChunkSize (ProxyClient.config (demoClientNode 2 False))
   \<and> ClientConfig.ChunkSize (ProxyClient.config (demoClientNode 2 False)) < 2 ^ 63
   \<and> len [1, 2, 3 :: byte] + ClientConfig.ChunkSize (ProxyClient.config (demoClientNode 2 False)) - 1
        < 2 ^ 63
   \<and> UpstreamServers (ProxyClient.config (demoClientNode 2 False)) \<noteq> []
   \<and> \<not> Enabled (ClientConfig.Encryption (ProxyClient.config (demoClientNode 2 False)))
   \<and> distinct (rev (map (\<lambda>s. asRequest (fst s))
                     (fst (fragmentAndSend shape_gcm (demoEnv 0)
                             (ProxyClient.config (demoClientNode 2 False)) ''s1'' ''POST''
                             ''http://echo.test/'' [1, 2, 3] []))))
   \<and> snd (snd (MakeRequest shape_gcm (demoEnv 0) (demoClientNode 2 False) ''s1'' 0 ''POST''
                  ''http://echo.test/'' [1, 2, 3] []
                  (rev (map (\<lambda>s. asRequest (fst s))
                          (fst (fragmentAndSend shape_gcm (demoEnv 0)
                                  (ProxyClient.config (demoClientNode 2 False)) ''s1'' ''POST''
                                  ''http://echo.test/'' [1, 2, 3] []))))))
       = Inr \<lparr>StatusCode = 200, ProxyResponse.Headers = [], Body = [1, 2, 3], Error = None\<rparr>"
proof -
  let ?c = "demoClientNode 2 False"
  let ?A = "map (\<lambda>s. asRequest (fst s))
              (fst (fragmentAndSend shape_gcm (demoEnv 0) (ProxyClient.config ?c) ''s1'' ''POST''
                      ''http://echo.test/'' [1, 2, 3] []))"
  have cfg: "ProxyClient.config ?c = demoClient 2 False" by (simp add: demoClientNode_def)
  have h1: "1 \<le> ClientConfig.ChunkSize (ProxyClient.config ?c)"
    by (simp add: cfg demoClient_def)
  have h2: "ClientConfig.ChunkSize (ProxyClient.config ?c) < 2 ^ 63"
    by (simp add: cfg demoClient_def)
  have h3: "len [1, 2, 3 :: byte] + ClientConfig.ChunkSize (ProxyClient.config ?c) - 1 < 2 ^ 63"
    by (simp add: cfg demoClient_def len_def)
  have h4: "UpstreamServers (ProxyClient.config ?c) \<noteq> []" by (simp add: cfg demoClient_def)
  have h5: "\<not> Enabled (ClientConfig.Encryption (ProxyClient.config ?c))"
    by (simp add: cfg demoClient_def demoEncryption_def)
  have h6: "distinct (rev ?A)"
    unfolding cfg demo_fragments by (simp add: asRequest_def)
  have h7: "set (rev ?A) = set ?A" by (rule set_rev)
  show ?thesis
    using MakeRequest_round_trip[OF h1 h2 h3 h4 h5 h6 h7, of 0] h1 h2 h3 h4 h5 h6
    by (simp only: simp_thms)
qed

text \<open>
  C3. The claim has, for every body and every chunk size of at least 1, the body back
  from fragmenting it and concatenating the payloads in ascending sequence order. At the
  chunk size and the body of two bytes where the ceiling of \<open>fragmentAndSend\<close> wraps around
  (see C2) there is no chunk: the concatenation of the payloads is empty, and the call
  that waits for those chunks times out instead of returning the two bytes.
\<close>

theorem MakeRequest_round_trip_overflow:
  "concat (map (\<lambda>s. Data (fst s))
             (fst (fragmentAndSend shape_gcm (demoEnv 0)
                     (ProxyClient.config (demoClientNode 9223372036854775807 False)) ''s1''
                     ''POST'' ''http://echo.test/'' [1, 2] []))) = []
   \<and> snd (snd (MakeRequest shape_gcm (demoEnv 0) (demoClientNode 9223372036854775807 False) ''s1''
                  0 ''POST'' ''http://echo.test/'' [1, 2] []
                  (map (\<lambda>s. asRequest (fst s))
                     (fst (fragmentAndSend shape_gcm (demoEnv 0)
                             (ProxyClient.config (demoClientNode 9223372036854775807 False))
                             ''s1'' ''POST'' ''http://echo.test/'' [1, 2] [])))))
       = Inl ErrTimeout"
proof -
  have f: "fragmentAndSend shape_gcm (demoEnv 0)
             (ProxyClient.config (demoClientNode 9223372036854775807 False)) ''s1'' ''POST''
             ''http://echo.test/'' [1, 2] [] = ([], None)"
    by (simp add: fragmentAndSend_def demoClientNode_def demoClient_def go_quo_def go_sub_def
        go_add_def int64_def len_def forLoop.simps)
  show ?thesis
    unfolding MakeRequest_def Let_def f by simp
qed

section \<open>Relay rotation\<close>

lemma rotateTick_cursor:
  assumes hops: "NextHops (RelayNode.config r) \<noteq> []"
    and slice: "len (NextHops (RelayNode.config r)) < 2 ^ 63"
    and cur: "0 \<le> currentHopIdx r" "currentHopIdx r < len (NextHops (RelayNode.config r))"
  shows "currentHopIdx (rotateTick r)
           = (currentHopIdx r + 1) mod len (NextHops (RelayNode.config r))"
    and "RelayNode.config (rotateTick r) = RelayNode.config r"
proof -
  let ?L = "len (NextHops (RelayNode.config r))" and ?i = "currentHopIdx r"
  have Lpos: "0 < ?L" using hops by (simp add: len_def)
  show "RelayNode.config (rotateTick r) = RelayNode.config r"
    unfolding rotateTick_def by (simp split: sum.split)
  show "currentHopIdx (rotateTick r) = (?i + 1) mod ?L"
  proof (cases "?L \<le> 1")
    case True
    then have "?L = 1" using Lpos by simp
    moreover from this have "?i = 0" using cur by simp
    ultimately show ?thesis unfolding rotateTick_def by simp
  next
    case False
    have a: "go_add ?i 1 = ?i + 1"
      unfolding go_add_def by (rule int64_id) (use cur slice in linarith)+
    have "go_rem (?i + 1) ?L = Inr ((?i + 1) mod ?L)"
      by (rule go_rem_nonneg) (use cur slice Lpos in linarith)+
    then show ?thesis unfolding rotateTick_def a using False by simp
  qed
qed

lemma rotateRoutes_cursor:
  "NextHops (RelayNode.config r) \<noteq> [] \<Longrightarrow>
   len (NextHops (RelayNode.config r)) < 2 ^ 63 \<Longrightarrow>
   0 \<le> currentHopIdx r \<Longrightarrow> currentHopIdx r < len (NextHops (RelayNode.config r)) \<Longrightarrow>
   currentHopIdx (rotateRoutes n r)
     = (currentHopIdx r + int n) mod len (NextHops (RelayNode.config r))
   \<and> RelayNode.config (rotateRoutes n r) = RelayNode.config r"
proof (induction n arbitrary: r)
  case 0
  then show ?case by simp
next
  case (Suc n)
  let ?L = "len (NextHops (RelayNode.config r))"
  note t = rotateTick_cursor[OF Suc.prems]
  have Lpos: "0 < ?L" using Suc.prems(1) by (simp add: len_def)
  have c0: "0 \<le> currentHopIdx (rotateTick r)" unfolding t(1) using Lpos by simp
  have c1: "currentHopIdx (rotateTick r) < len (NextHops (RelayNode.config (rotateTick r)))"
    unfolding t using Lpos by simp
  have h: "NextHops (RelayNode.config (rotateTick r)) \<noteq> []"
    "len (NextHops (RelayNode.config (rotateTick r))) < 2 ^ 63"
    unfolding t(2) using Suc.prems(1,2) by this+
  have ih: "currentHopIdx (rotateRoutes n (rotateTick r))
              = (currentHopIdx (rotateTick r) + int n) mod ?L
            \<and> RelayNode.config (rotateRoutes n (rotateTick r)) = RelayNode.config r"
    using Suc.IH[OF h c0 c1] unfolding t(2) .
  have "((currentHopIdx r + 1) mod ?L + int n) mod ?L = (currentHopIdx r + 1 + int n) mod ?L"
    by (rule mod_add_left_eq)
  also have "currentHopIdx r + 1 + int n = currentHopIdx r + int (Suc n)" by simp
  finally have "((currentHopIdx r + 1) mod ?L + int n) mod ?L
                  = (currentHopIdx r + int (Suc n)) mod ?L" .
  then show ?case using ih unfolding t(1) by simp
qed

lemma rotateRoutes_from_start:
  assumes hops: "NextHops cfg \<noteq> []" and slice: "len (NextHops cfg) < 2 ^ 63"
  shows "currentHopIdx (rotateRoutes n (NewRelayNode cfg)) = int n mod len (NextHops cfg)"
proof -
  let ?r = "NewRelayNode cfg"
  have c: "RelayNode.config ?r = cfg" "currentHopIdx ?r = 0" by (simp_all add: NewRelayNode_def)
  have Lpos: "0 < len (NextHops cfg)" using hops by (simp add: len_def)
  have "currentHopIdx (rotateRoutes n ?r)
          = (currentHopIdx ?r + int n) mod len (NextHops (RelayNode.config ?r))"
    by (rule rotateRoutes_cursor[THEN conjunct1]) (use hops slice Lpos in \<open>simp_all add: c\<close>)
  then show ?thesis by (simp add: c)
qed

text \<open>
  C9, as the code has it. At a relay with rotation enabled, that is a rotation period of
  \<open>P > 0\<close> seconds, whose period in nanoseconds fits the 64 bits of \<^verbatim>\<open>time.Duration\<close>
  (\<open>P * 10^9 < 2^63\<close>), and with a list of next hops that is not empty and has fewer than
  \<open>2^63\<close> entries, as every Go slice has: each tick of the ticker moves the cursor from \<open>i\<close>
  to \<open>(i + 1) mod len(next_hops)\<close>; \<open>T\<close> seconds after the start, when the ticker has ticked
  once for every whole period elapsed, the cursor, which starts at 0, has advanced
  \<open>\<lfloor>T / P\<rfloor>\<close> positions modulo the length of the list; and after any number of ticks it
  lies in \<open>[0, len(next_hops))\<close>.
\<close>

theorem relay_rotation:
  assumes rot: "0 < RotationTime cfg"
    and dur: "RotationTime cfg * 1000000000 < 2 ^ 63"
    and hops: "NextHops cfg \<noteq> []"
    and slice: "len (NextHops cfg) < 2 ^ 63"
  shows "currentHopIdx (rotateRoutes (Suc n) (NewRelayNode cfg))
           = (currentHopIdx (rotateRoutes n (NewRelayNode cfg)) + 1) mod len (NextHops cfg)
       \<and> relayAfter T (NewRelayNode cfg)
           = Inr (rotateRoutes (nat \<lfloor>T / real_of_int (RotationTime cfg)\<rfloor>) (NewRelayNode cfg))
       \<and> currentHopIdx (rotateRoutes (nat \<lfloor>T / real_of_int (RotationTime cfg)\<rfloor>)
                          (NewRelayNode cfg))
           = int (nat \<lfloor>T / real_of_int (RotationTime cfg)\<rfloor>) mod len (NextHops cfg)
       \<and> 0 \<le> currentHopIdx (rotateRoutes n (NewRelayNode cfg))
       \<and> currentHopIdx (rotateRoutes n (NewRelayNode cfg)) < len (NextHops cfg)"
proof -
  let ?L = "len (NextHops cfg)" and ?P = "RotationTime cfg"
  let ?k = "nat \<lfloor>T / real_of_int ?P\<rfloor>"
  note at = rotateRoutes_from_start[OF hops slice]
  have Lpos: "0 < ?L" using hops by (simp add: len_def)
  have "(int n mod ?L + 1) mod ?L = (int n + 1) mod ?L" by (rule mod_add_left_eq)
  then have "int (Suc n) mod ?L = (int n mod ?L + 1) mod ?L" by (simp add: add.commute)
  then have tick: "currentHopIdx (rotateRoutes (Suc n) (NewRelayNode cfg))
           = (currentHopIdx (rotateRoutes n (NewRelayNode cfg)) + 1) mod ?L"
    by (simp only: at)
  have period: "go_mul ?P 1000000000 = ?P * 1000000000"
    unfolding go_mul_def by (rule int64_id) (use rot dur in linarith)+
  have "T * 1000000000 / real_of_int (?P * 1000000000) = T / real_of_int ?P"
    using rot by simp
  then have ticks: "nat \<lfloor>T * 1000000000 / real_of_int (?P * 1000000000)\<rfloor> = ?k"
    by (simp only:)
  have cfgr: "RelayNode.config (NewRelayNode cfg) = cfg" by (simp add: NewRelayNode_def)
  have after: "relayAfter T (NewRelayNode cfg) = Inr (rotateRoutes ?k (NewRelayNode cfg))"
    unfolding relayAfter_def cfgr Let_def period ticks using rot by simp
  have idx: "currentHopIdx (rotateRoutes ?k (NewRelayNode cfg)) = int ?k mod ?L"
    by (rule at)
  have "0 \<le> int n mod ?L" "int n mod ?L < ?L" using Lpos by simp_all
  then have rng: "0 \<le> currentHopIdx (rotateRoutes n (NewRelayNode cfg))"
    "currentHopIdx (rotateRoutes n (NewRelayNode cfg)) < ?L"
    by (simp_all only: at)
  show ?thesis by (intro conjI tick after idx rng)
qed

theorem relay_rotation_witness:
  "0 < RotationTime (demoRelayConfig [''h0'', ''h1'', ''h2''])
   \<and> RotationTime (demoRelayConfig [''h0'', ''h1'', ''h2'']) * 1000000000 < 2 ^ 63
   \<and> NextHops (demoRelayConfig [''h0'', ''h1'', ''h2'']) \<noteq> []
   \<and> len (NextHops (demoRelayConfig [''h0'', ''h1'', ''h2''])) < 2 ^ 63
   \<and> currentHopIdx (rotateRoutes (Suc 2) (NewRelayNode (demoRelayConfig [''h0'', ''h1'', ''h2'']))) = 0
   \<and> map_sum id currentHopIdx
        (relayAfter (7 / 2) (NewRelayNode (demoRelayConfig [''h0'', ''h1'', ''h2'']))) = Inr 0
   \<and> map_sum id currentHopIdx
        (relayAfter (5 / 2) (NewRelayNode (demoRelayConfig [''h0'', ''h1'', ''h2'']))) = Inr 2"
proof -
  let ?cfg = "demoRelayConfig [''h0'', ''h1'', ''h2'']"
  have h1: "0 < RotationTime ?cfg" by (simp add: demoRelayConfig_def)
  have h2: "RotationTime ?cfg * 1000000000 < 2 ^ 63" by (simp add: demoRelayConfig_def)
  have h3: "NextHops ?cfg \<noteq> []" by (simp add: demoRelayConfig_def)
  have h4: "len (NextHops ?cfg) < 2 ^ 63" by (simp add: demoRelayConfig_def len_def)
  have v: "RotationTime ?cfg = 1" "len (NextHops ?cfg) = 3"
    by (simp_all add: demoRelayConfig_def len_def)
  note t7 = relay_rotation[OF h1 h2 h3 h4, of 0 "7 / 2"]
  note t5 = relay_rotation[OF h1 h2 h3 h4, of 0 "5 / 2"]
  have a: "map_sum id currentHopIdx (relayAfter (7 / 2) (NewRelayNode ?cfg)) = Inr 0"
    unfolding t7[THEN conjunct2, THEN conjunct1]
    using t7[THEN conjunct2, THEN conjunct2, THEN conjunct1] unfolding v by simp
  have b: "map_sum id currentHopIdx (relayAfter (5 / 2) (NewRelayNode ?cfg)) = Inr 2"
    unfolding t5[THEN conjunct2, THEN conjunct1]
    using t5[THEN conjunct2, THEN conjunct2, THEN conjunct1] unfolding v by simp
  have two: "currentHopIdx (rotateRoutes 2 (NewRelayNode ?cfg)) = 2"
    using rotateRoutes_from_start[OF h3 h4, of 2] unfolding v by simp
  have c: "currentHopIdx (rotateRoutes (Suc 2) (NewRelayNode ?cfg)) = 0"
    using relay_rotation[OF h1 h2 h3 h4, of 2 0, THEN conjunct1] unfolding v two by simp
  show ?thesis by (intro conjI h1 h2 h3 h4 c a b)
qed

text \<open>
  C9 as stated fails for a relay with rotation enabled and no next hop (a terminal relay
  that forwards to the gateway): \<open>rotateRoutes\<close> skips every tick for a list of at most one
  entry, the cursor stays 0, and no number lies in \<open>[0, 0)\<close>. It fails as well for a
  rotation period of \<open>10^10\<close> seconds, whose nanoseconds wrap around to a negative
  duration: \<^verbatim>\<open>NewTicker\<close> panics and there is no rotation at all.
\<close>

theorem relay_rotation_counterexample:
  "0 < RotationTime (demoRelayConfig [])
   \<and> map_sum id currentHopIdx (relayAfter 1 (NewRelayNode (demoRelayConfig []))) = Inr 0
   \<and> len (NextHops (demoRelayConfig [])) = 0
   \<and> relayAfter 1 (NewRelayNode ((demoRelayConfig [''h0'', ''h1''])\<lparr>RotationTime := 10000000000\<rparr>))
       = Inl PanicNonPositiveInterval"
  by (simp add: relayAfter_def NewRelayNode_def demoRelayConfig_def rotateTick_def len_def
      go_mul_def int64_def Let_def)

section \<open>Central: response fragmentation\<close>




lemma demo_fragments_empty:
  "fragmentAndSend shape_gcm (demoEnv 0) (demoClient 2 False) ''s1'' ''GET''
          ''http://echo.test/'' [] []
     = ([(\<lparr> Chunk.SessionID = ''s1'', SequenceNum = 1, Chunk.TotalChunks = 1, Data = [],
           Timestamp = 0, SourceClient = ''client:7000'', Chunk.TargetURL = ''http://echo.test/'',
           Chunk.Method = ''GET'', Chunk.Headers = [] \<rparr>, ''u0'')], None)"
  by (simp add: fragmentAndSend_def fragmentStep_def demoClient_def demoEncryption_def demoEnv_def
      go_quo_def go_rem_def go_sub_def go_add_def go_mul_def go_slice_def go_index_def int64_def
      len_def forLoop.simps Itoa_def digits10.simps Let_def)



section \<open>Central: reassembly\<close>



lemma demo_handle_fresh:
  "CentralProxy_handleChunk shape_gcm now (demoCentral 2 False)
       (asRequest (demoChunk seq n payload []))
     = (200,
        (demoCentral 2 False)\<lparr>sessions :=
           [''s1'' \<mapsto> (demoSession [seq \<mapsto> demoChunk seq n payload []] n [])
                         \<lparr>Session.ReceivedAt := now\<rparr>]\<rparr>,
        if n = 1
        then Some ((demoSession [seq \<mapsto> demoChunk seq n payload []] n [])
                     \<lparr>Session.ReceivedAt := now\<rparr>)
        else None)"
  by (simp add: CentralProxy_handleChunk_def demoCentral_def demoEncryption_def
      demoChunk_def asRequest_def demoSession_def Let_def)


lemma demo_perform:
  "CentralProxy_performProxyRequest (demoWorld answer)
       ((demoSession chunks n [])\<lparr>Session.ReceivedAt := t\<rparr>) body
     = ([\<lparr> req_method = ''POST'', req_url = ''http://echo.test/'', req_body = body,
           req_header = [] \<rparr>], Inr answer)"
  by (simp add: CentralProxy_performProxyRequest_def NewRequest_method_def demoSession_def
      demoWorld_def Let_def)





lemma demo_deliver_first_of_two:
  "CentralProxy_deliver (demoWorld [7]) shape_gcm (demoCentral 2 False, issued, sent)
       (now, env, asRequest (demoChunk seq 2 payload []))
     = ((demoCentral 2 False)\<lparr>sessions :=
           [''s1'' \<mapsto> (demoSession [seq \<mapsto> demoChunk seq 2 payload []] 2 [])
                         \<lparr>Session.ReceivedAt := now\<rparr>]\<rparr>, issued, sent)"
  by (simp add: CentralProxy_deliver_def demo_handle_fresh)




section \<open>The request path under encryption\<close>

lemma length_tagOf: "length (tagOf key nonce) = 16"
  by (simp add: tagOf_def)

lemma DecryptAES_shape_gcm:
  assumes "length key \<in> {16, 24, 32}" "length nonce = 12"
  shows "DecryptAES shape_gcm (nonce @ plain @ tagOf key nonce) key = Inr plain"
  using assms by (simp add: DecryptAES_def shape_gcm_def NonceSize_def length_tagOf)

lemma EncryptAES_shape_gcm:
  assumes "length key \<in> {16, 24, 32}" "length nonce = 12"
  shows "EncryptAES shape_gcm nonce plain key = Inr (nonce @ plain @ tagOf key nonce)"
  using assms by (simp add: EncryptAES_def shape_gcm_def NonceSize_def Let_def)

lemma processCompleteSession_issued:
  "fst (snd (processCompleteSession w g env p s))
     = (case concatChunks (Session.Chunks s) (Session.TotalChunks s) 1 [] of
          Inl missing \<Rightarrow> []
        | Inr fullData \<Rightarrow> fst (CentralProxy_performProxyRequest w s fullData))"
  by (simp add: processCompleteSession_def split: sum.split prod.split)

lemma CentralProxy_deliver_issued:
  "fst (snd (CentralProxy_deliver w g (p, issued, sent) (now, env, r)))
     = issued @ (case snd (snd (CentralProxy_handleChunk g now p r)) of
                   None \<Rightarrow> []
                 | Some session \<Rightarrow>
                     fst (snd (processCompleteSession w g env
                                 (fst (snd (CentralProxy_handleChunk g now p r))) session)))"
  by (simp add: CentralProxy_deliver_def split: prod.split option.split)

lemma demo_fragments_sealed:
  "fragmentAndSend shape_gcm (demoEnv 0) (demoClient 2 True) ''s1'' ''POST''
       ''http://echo.test/'' [5] []
     = ([(demoChunk 1 1 (replicate 12 9 @ [5] @ tagOf demoKey (replicate 12 9)) [], ''u0'')], None)"
  by (simp add: fragmentAndSend_def fragmentStep_def demoClient_def demoEncryption_def demoEnv_def
      demoChunk_def EncryptAES_shape_gcm demoKey_length
      go_quo_def go_rem_def go_sub_def go_add_def go_mul_def go_slice_def go_index_def int64_def
      len_def forLoop.simps Itoa_def digits10.simps Let_def)

lemma demo_upstream_sealed:
  "UpstreamServer_handleChunk shape_gcm (replicate 12 8) (\<lambda>chunk. None) demoUpstream
       (asRequest (demoChunk 1 1 payload []))
     = (200, Some (demoChunk 1 1 (replicate 12 8 @ payload @ tagOf demoKey (replicate 12 8)) []))"
  by (simp add: UpstreamServer_handleChunk_def demoUpstream_def demoEncryption_def asRequest_def
      demoChunk_def ApplyObfuscation_def EncryptAES_shape_gcm demoKey_length Let_def)

lemma demo_central_opened:
  "CentralProxy_handleChunk shape_gcm now (demoCentral 2 True)
       (asRequest (demoChunk 1 1 (replicate 12 8 @ payload @ tagOf demoKey (replicate 12 8)) []))
     = (200,
        (demoCentral 2 True)\<lparr>sessions :=
           [''s1'' \<mapsto> (demoSession [1 \<mapsto> demoChunk 1 1 payload []] 1 [])
                         \<lparr>Session.ReceivedAt := now\<rparr>]\<rparr>,
        Some ((demoSession [1 \<mapsto> demoChunk 1 1 payload []] 1 [])
                \<lparr>Session.ReceivedAt := now\<rparr>))"
  by (simp add: CentralProxy_handleChunk_def demoCentral_def demoEncryption_def
      demoChunk_def asRequest_def demoSession_def DecryptAES_shape_gcm demoKey_length Let_def)

text \<open>
  C1, at a request of one chunk with body \<open>[5]\<close>, every node with encryption enabled and
  the key of the repository's configuration files. The client seals the fragment under
  the nonce \<open>9 \<dots> 9\<close> and sends nonce, fragment and tag. The upstream does not open what it
  received: \<open>handleChunk\<close> calls \<open>EncryptAES\<close> on the payload as it came and forwards a
  second layer around the client's ciphertext, here under the nonce \<open>8 \<dots> 8\<close>. The central
  proxy opens one layer, so the payload it stores, reassembles and sends to the target as
  the body of the outbound request is the client's ciphertext (nonce, fragment, tag),
  29 bytes, and not the fragment \<open>[5]\<close>.
\<close>

theorem upstream_double_encryption:
  "fragmentAndSend shape_gcm (demoEnv 0) (demoClient 2 True) ''s1'' ''POST''
       ''http://echo.test/'' [5] []
     = ([(demoChunk 1 1 (replicate 12 9 @ [5] @ tagOf demoKey (replicate 12 9)) [], ''u0'')], None)
   \<and> UpstreamServer_handleChunk shape_gcm (replicate 12 8) (\<lambda>chunk. None) demoUpstream
         (asRequest (demoChunk 1 1 (replicate 12 9 @ [5] @ tagOf demoKey (replicate 12 9)) []))
     = (200, Some (demoChunk 1 1
                     (replicate 12 8 @ (replicate 12 9 @ [5] @ tagOf demoKey (replicate 12 9))
                        @ tagOf demoKey (replicate 12 8)) []))
   \<and> map_option (\<lambda>session. map_option Data (Session.Chunks session 1))
        (snd (snd (CentralProxy_handleChunk shape_gcm 1 (demoCentral 2 True)
           (asRequest (demoChunk 1 1
                         (replicate 12 8 @ (replicate 12 9 @ [5] @ tagOf demoKey (replicate 12 9))
                            @ tagOf demoKey (replicate 12 8)) [])))))
     = Some (Some (replicate 12 9 @ [5] @ tagOf demoKey (replicate 12 9)))
   \<and> map req_body (fst (snd (CentralProxy_run (demoWorld [7]) shape_gcm (demoCentral 2 True)
          [(1, demoEnv 10,
            asRequest (demoChunk 1 1
                         (replicate 12 8 @ (replicate 12 9 @ [5] @ tagOf demoKey (replicate 12 9))
                            @ tagOf demoKey (replicate 12 8)) []))])))
     = [replicate 12 9 @ [5] @ tagOf demoKey (replicate 12 9)]
   \<and> length (replicate 12 9 @ [5] @ tagOf demoKey (replicate 12 9)) = 29"
proof -
  let ?sealed = "replicate 12 9 @ [5] @ tagOf demoKey (replicate 12 9)"
  let ?wrapped = "replicate 12 8 @ ?sealed @ tagOf demoKey (replicate 12 8)"
  let ?stored = "(demoSession [1 \<mapsto> demoChunk 1 1 ?sealed []] 1 [])\<lparr>Session.ReceivedAt := 1\<rparr>"
  have a: "fragmentAndSend shape_gcm (demoEnv 0) (demoClient 2 True) ''s1'' ''POST''
             ''http://echo.test/'' [5] [] = ([(demoChunk 1 1 ?sealed [], ''u0'')], None)"
    by (rule demo_fragments_sealed)
  have b: "UpstreamServer_handleChunk shape_gcm (replicate 12 8) (\<lambda>chunk. None) demoUpstream
             (asRequest (demoChunk 1 1 ?sealed [])) = (200, Some (demoChunk 1 1 ?wrapped []))"
    by (rule demo_upstream_sealed)
  note h = demo_central_opened[of 1 ?sealed]
  have c: "map_option (\<lambda>session. map_option Data (Session.Chunks session 1))
             (snd (snd (CentralProxy_handleChunk shape_gcm 1 (demoCentral 2 True)
                          (asRequest (demoChunk 1 1 ?wrapped [])))))
           = Some (Some ?sealed)"
    unfolding h by (simp add: demoSession_def demoChunk_def)
  have cc: "concatChunks (Session.Chunks ?stored) (Session.TotalChunks ?stored) 1 [] = Inr ?sealed"
    by (simp add: demoSession_def demoChunk_def concatChunks.simps)
  have d: "map req_body (fst (snd (CentralProxy_run (demoWorld [7]) shape_gcm (demoCentral 2 True)
             [(1, demoEnv 10, asRequest (demoChunk 1 1 ?wrapped []))]))) = [?sealed]"
    unfolding CentralProxy_run_def fold_simps id_apply comp_apply CentralProxy_deliver_issued h
      snd_conv fst_conv option.case processCompleteSession_issued cc sum.case demo_perform
    by simp
  have e: "length ?sealed = 29" by (simp add: length_tagOf)
  show ?thesis by (intro conjI a b c d e)
qed

section \<open>A session that is full but has a gap\<close>

lemma demo_handle_gap:
  "CentralProxy_handleChunk shape_gcm now
       ((demoCentral 2 False)\<lparr>sessions :=
           [''s1'' \<mapsto> (demoSession [1 \<mapsto> demoChunk 1 2 [5] []] 2 [])
                         \<lparr>Session.ReceivedAt := t\<rparr>]\<rparr>)
       (asRequest (demoChunk 3 2 [6] []))
     = (200,
        (demoCentral 2 False)\<lparr>sessions :=
           [''s1'' \<mapsto> (demoSession [1 \<mapsto> demoChunk 1 2 [5] [], 3 \<mapsto> demoChunk 3 2 [6] []] 2 [])
                         \<lparr>Session.ReceivedAt := t\<rparr>]\<rparr>,
        Some ((demoSession [1 \<mapsto> demoChunk 1 2 [5] [], 3 \<mapsto> demoChunk 3 2 [6] []] 2 [])
                \<lparr>Session.ReceivedAt := t\<rparr>))"
  by (simp add: CentralProxy_handleChunk_def demoCentral_def demoEncryption_def
      demoChunk_def asRequest_def demoSession_def Let_def)

lemma processCompleteSession_gap:
  assumes "concatChunks (Session.Chunks s) (Session.TotalChunks s) 1 [] = Inl missing"
  shows "processCompleteSession w g env p s = (p, [], [])"
  by (simp add: processCompleteSession_def assms)

lemma demo_deliver_gap:
  "CentralProxy_deliver (demoWorld [7]) shape_gcm
       ((demoCentral 2 False)\<lparr>sessions :=
           [''s1'' \<mapsto> (demoSession [1 \<mapsto> demoChunk 1 2 [5] []] 2 [])
                         \<lparr>Session.ReceivedAt := t\<rparr>]\<rparr>, issued, sent)
       (now, env, asRequest (demoChunk 3 2 [6] []))
     = ((demoCentral 2 False)\<lparr>sessions :=
           [''s1'' \<mapsto> (demoSession [1 \<mapsto> demoChunk 1 2 [5] [], 3 \<mapsto> demoChunk 3 2 [6] []] 2 [])
                         \<lparr>Session.ReceivedAt := t\<rparr>]\<rparr>, issued, sent)"
proof -
  let ?s = "(demoSession [1 \<mapsto> demoChunk 1 2 [5] [], 3 \<mapsto> demoChunk 3 2 [6] []] 2 [])
              \<lparr>Session.ReceivedAt := t\<rparr>"
  have c: "concatChunks (Session.Chunks ?s) (Session.TotalChunks ?s) 1 [] = Inl 2"
    by (simp add: demoSession_def demoChunk_def concatChunks.simps)
  show ?thesis
    unfolding CentralProxy_deliver_def prod.case demo_handle_gap option.case
      processCompleteSession_gap[OF c]
    by simp
qed

lemma demo_run_gap:
  "CentralProxy_run (demoWorld [7]) shape_gcm (demoCentral 2 False)
       [(1, demoEnv 10, asRequest (demoChunk 1 2 [5] [])),
        (2, demoEnv 20, asRequest (demoChunk 3 2 [6] []))]
     = ((demoCentral 2 False)\<lparr>sessions :=
           [''s1'' \<mapsto> (demoSession [1 \<mapsto> demoChunk 1 2 [5] [], 3 \<mapsto> demoChunk 3 2 [6] []] 2 [])
                         \<lparr>Session.ReceivedAt := 1\<rparr>]\<rparr>, [], [])"
  unfolding CentralProxy_run_def fold_simps id_apply comp_apply demo_deliver_first_of_two
    demo_deliver_gap
  by (rule refl)

text \<open>
  C4, at a session of total 2 whose chunks carry the sequence numbers 1 and 3, both at
  the central proxy and at the client, encryption off. The client behaves as the claim
  says: its second chunk fills the count, \<open>assembleResponse\<close> finds slot 2 empty and the
  waiting \<open>MakeRequest\<close> returns the error of the missing chunk 2, the session deleted. The
  central proxy sends no outbound request and dispatches nothing, but it does not evict:
  \<open>processCompleteSession\<close> returns at the missing chunk, before the cleanup at its end, and
  the session stays in the table with both chunks. Only \<open>cleanupSessions\<close> removes it, once
  it is older than the reassembly timeout, here 60000 milliseconds: with the clock
  counted in nanoseconds and its first chunk received at clock 1, the tick at 30 seconds
  leaves it and the tick at 90 seconds removes it.
\<close>

theorem central_keeps_session_with_gap:
  "snd (CentralProxy_run (demoWorld [7]) shape_gcm (demoCentral 2 False)
          [(1, demoEnv 10, asRequest (demoChunk 1 2 [5] [])),
           (2, demoEnv 20, asRequest (demoChunk 3 2 [6] []))]) = ([], [])
   \<and> map_option (\<lambda>session. dom (Session.Chunks session))
        (sessions (fst (CentralProxy_run (demoWorld [7]) shape_gcm (demoCentral 2 False)
                          [(1, demoEnv 10, asRequest (demoChunk 1 2 [5] [])),
                           (2, demoEnv 20, asRequest (demoChunk 3 2 [6] []))])) ''s1'')
       = Some {1, 3}
   \<and> map_option (\<lambda>session. dom (Session.Chunks session))
        (sessions (cleanupTick 30000000000
                     (fst (CentralProxy_run (demoWorld [7]) shape_gcm (demoCentral 2 False)
                             [(1, demoEnv 10, asRequest (demoChunk 1 2 [5] [])),
                              (2, demoEnv 20, asRequest (demoChunk 3 2 [6] []))]))) ''s1'')
       = Some {1, 3}
   \<and> sessions (cleanupTick 90000000000
                  (fst (CentralProxy_run (demoWorld [7]) shape_gcm (demoCentral 2 False)
                          [(1, demoEnv 10, asRequest (demoChunk 1 2 [5] [])),
                           (2, demoEnv 20, asRequest (demoChunk 3 2 [6] []))]))) ''s1'' = None
   \<and> snd (snd (MakeRequest shape_gcm (demoEnv 0) (demoClientNode 2 False) ''s1'' 0 ''GET''
                  ''http://echo.test/'' [] []
                  [asRequest (demoChunk 1 2 [5] []), asRequest (demoChunk 3 2 [6] [])]))
       = Inl (ErrMissingChunk 2)
   \<and> pendingSessions
        (fst (MakeRequest shape_gcm (demoEnv 0) (demoClientNode 2 False) ''s1'' 0 ''GET''
                ''http://echo.test/'' [] []
                [asRequest (demoChunk 1 2 [5] []), asRequest (demoChunk 3 2 [6] [])])) ''s1''
       = None"
proof -
  let ?run = "CentralProxy_run (demoWorld [7]) shape_gcm (demoCentral 2 False)
                [(1, demoEnv 10, asRequest (demoChunk 1 2 [5] [])),
                 (2, demoEnv 20, asRequest (demoChunk 3 2 [6] []))]"
  let ?call = "MakeRequest shape_gcm (demoEnv 0) (demoClientNode 2 False) ''s1'' 0 ''GET''
                 ''http://echo.test/'' [] []
                 [asRequest (demoChunk 1 2 [5] []), asRequest (demoChunk 3 2 [6] [])]"
  have a: "snd ?run = ([], [])" unfolding demo_run_gap by simp
  have b: "map_option (\<lambda>session. dom (Session.Chunks session)) (sessions (fst ?run) ''s1'')
             = Some {1, 3}"
    unfolding demo_run_gap by (simp add: demoSession_def insert_commute)
  have c: "map_option (\<lambda>session. dom (Session.Chunks session))
             (sessions (cleanupTick 30000000000 (fst ?run)) ''s1'') = Some {1, 3}"
    unfolding demo_run_gap
    by (simp add: cleanupTick_def time_Sub_def go_mul_def int64_def demoSession_def
        demoCentral_def insert_commute)
  have d: "sessions (cleanupTick 90000000000 (fst ?run)) ''s1'' = None"
    unfolding demo_run_gap
    by (simp add: cleanupTick_def time_Sub_def go_mul_def int64_def demoSession_def
        demoCentral_def)
  have r1: "clientReceive shape_gcm
              ((demoClientNode 2 False)\<lparr>pendingSessions :=
                  [''s1'' \<mapsto> \<lparr> PendingSession.SessionID = ''s1'', RequestURL = ''http://echo.test/'',
                                 PendingSession.Method = ''GET'', StartTime = 0, ResponseChan = None,
                                 PendingSession.Chunks = Map.empty,
                                 PendingSession.TotalChunks = 0 \<rparr>]\<rparr>)
              (asRequest (demoChunk 1 2 [5] []))
            = (demoClientNode 2 False)\<lparr>pendingSessions :=
                  [''s1'' \<mapsto> \<lparr> PendingSession.SessionID = ''s1'', RequestURL = ''http://echo.test/'',
                                 PendingSession.Method = ''GET'', StartTime = 0, ResponseChan = None,
                                 PendingSession.Chunks = [1 \<mapsto> demoChunk 1 2 [5] []],
                                 PendingSession.TotalChunks = 2 \<rparr>]\<rparr>"
    by (simp add: clientReceive_def handleResponseChunk_def demoClientNode_def demoClient_def
        demoEncryption_def asRequest_def demoChunk_def Let_def)
  have r2: "clientReceive shape_gcm
              ((demoClientNode 2 False)\<lparr>pendingSessions :=
                  [''s1'' \<mapsto> \<lparr> PendingSession.SessionID = ''s1'', RequestURL = ''http://echo.test/'',
                                 PendingSession.Method = ''GET'', StartTime = 0, ResponseChan = None,
                                 PendingSession.Chunks = [1 \<mapsto> demoChunk 1 2 [5] []],
                                 PendingSession.TotalChunks = 2 \<rparr>]\<rparr>)
              (asRequest (demoChunk 3 2 [6] []))
            = (demoClientNode 2 False)\<lparr>pendingSessions :=
                  [''s1'' \<mapsto> \<lparr> PendingSession.SessionID = ''s1'', RequestURL = ''http://echo.test/'',
                                 PendingSession.Method = ''GET'', StartTime = 0,
                                 ResponseChan = Some \<lparr>StatusCode = 0, ProxyResponse.Headers = [],
                                                      Body = [], Error = Some (ErrMissingChunk 2)\<rparr>,
                                 PendingSession.Chunks = [1 \<mapsto> demoChunk 1 2 [5] [],
                                                          3 \<mapsto> demoChunk 3 2 [6] []],
                                 PendingSession.TotalChunks = 2 \<rparr>]\<rparr>"
    by (simp add: clientReceive_def handleResponseChunk_def assembleResponse_def
        demoClientNode_def demoClient_def demoEncryption_def asRequest_def demoChunk_def
        concatChunks.simps Let_def)
  have s: "fragmentAndSend shape_gcm (demoEnv 0) (ProxyClient.config (demoClientNode 2 False))
             ''s1'' ''GET'' ''http://echo.test/'' [] []
           = ([(\<lparr> Chunk.SessionID = ''s1'', SequenceNum = 1, Chunk.TotalChunks = 1, Data = [],
                  Timestamp = 0, SourceClient = ''client:7000'',
                  Chunk.TargetURL = ''http://echo.test/'', Chunk.Method = ''GET'',
                  Chunk.Headers = [] \<rparr>, ''u0'')], None)"
    by (simp add: demoClientNode_def demo_fragments_empty)
  have start: "(demoClientNode 2 False)\<lparr>pendingSessions :=
                  (pendingSessions (demoClientNode 2 False))(''s1'' \<mapsto> x)\<rparr>
               = (demoClientNode 2 False)\<lparr>pendingSessions := [''s1'' \<mapsto> x]\<rparr>" for x
    by (simp add: demoClientNode_def)
  have e: "snd (snd ?call) = Inl (ErrMissingChunk 2)"
    unfolding MakeRequest_def Let_def s prod.case option.case fold_simps id_apply comp_apply
      start r1 r2
    by simp
  have f: "pendingSessions (fst ?call) ''s1'' = None"
    unfolding MakeRequest_def Let_def s prod.case option.case fold_simps id_apply comp_apply
      start r1 r2
    by simp
  show ?thesis by (intro conjI a b c d e f)
qed

section \<open>Headers of the outbound request\<close>

lemma canonical_X_Node_ID: "CanonicalMIMEHeaderKey ''X-Node-ID'' = ''X-Node-Id''"
  by (simp add: CanonicalMIMEHeaderKey_def validHeaderFieldByte_def toUpper_def toLower_def Let_def)

lemma canonical_X_Auth_Token: "CanonicalMIMEHeaderKey ''X-Auth-Token'' = ''X-Auth-Token''"
  by (simp add: CanonicalMIMEHeaderKey_def validHeaderFieldByte_def toUpper_def toLower_def Let_def)

lemma canonical_Accept: "CanonicalMIMEHeaderKey ''Accept'' = ''Accept''"
  by (simp add: CanonicalMIMEHeaderKey_def validHeaderFieldByte_def toUpper_def toLower_def Let_def)

text \<open>
  C8, at a complete session of one chunk whose headers are \<open>X-Node-ID\<close>, \<open>X-Auth-Token\<close> and
  \<open>Accept\<close>. The outbound request of the central proxy carries all three: the loop of its
  \<open>performProxyRequest\<close> sets every header of the session and removes none (\<open>X-Node-ID\<close>
  leaves as \<open>X-Node-Id\<close>, the canonical form \<open>Header.Set\<close> gives the key). The
  \<open>performProxyRequest\<close> of the gateway, run on the same headers, skips the two inter-node
  headers and sends \<open>Accept\<close> alone.
\<close>

theorem central_forwards_auth_headers:
  "fst (snd (CentralProxy_run (demoWorld [7]) shape_gcm (demoCentral 2 False)
               [(1, demoEnv 10,
                 asRequest (demoChunk 1 1 [5]
                              [(''X-Node-ID'', ''relay-1''), (''X-Auth-Token'', ''t0''),
                               (''Accept'', ''*/*'')]))]))
     = [\<lparr> req_method = ''POST'', req_url = ''http://echo.test/'', req_body = [5],
          req_header = [(''X-Node-Id'', ''relay-1''), (''X-Auth-Token'', ''t0''),
                        (''Accept'', ''*/*'')] \<rparr>]
   \<and> fst (StarlinkGateway_performProxyRequest (demoWorld [7])
            \<lparr> TrafficRequest.RequestID = ''r1'', TrafficRequest.NodeID = ''relay-1'',
              TrafficRequest.TargetURL = ''http://echo.test/'', TrafficRequest.Method = ''POST'',
              TrafficRequest.Body = [5],
              TrafficRequest.Headers = [(''X-Node-ID'', ''relay-1''), (''X-Auth-Token'', ''t0''),
                                        (''Accept'', ''*/*'')],
              TrafficRequest.ReceivedAt = 1 \<rparr>)
     = [\<lparr> req_method = ''POST'', req_url = ''http://echo.test/'', req_body = [],
          req_header = [(''Accept'', ''*/*'')] \<rparr>]"
proof -
  let ?hs = "[(''X-Node-ID'', ''relay-1''), (''X-Auth-Token'', ''t0''), (''Accept'', ''*/*'')]"
  let ?s = "\<lparr> Session.SessionID = ''s1'', Session.Chunks = [1 \<mapsto> demoChunk 1 1 [5] ?hs],
              Session.TotalChunks = 1, ReceivedAt = 1, Session.TargetURL = ''http://echo.test/'',
              Session.Method = ''POST'', Session.Headers = ?hs \<rparr>"
  have h: "CentralProxy_handleChunk shape_gcm 1 (demoCentral 2 False)
             (asRequest (demoChunk 1 1 [5] ?hs))
           = (200, (demoCentral 2 False)\<lparr>sessions := [''s1'' \<mapsto> ?s]\<rparr>, Some ?s)"
    by (simp add: CentralProxy_handleChunk_def demoCentral_def demoEncryption_def
        demoChunk_def asRequest_def Let_def)
  have c: "concatChunks (Session.Chunks ?s) (Session.TotalChunks ?s) 1 [] = Inr [5]"
    by (simp add: demoChunk_def concatChunks.simps)
  have p: "fst (CentralProxy_performProxyRequest (demoWorld [7]) ?s [5])
           = [\<lparr> req_method = ''POST'', req_url = ''http://echo.test/'', req_body = [5],
                req_header = [(''X-Node-Id'', ''relay-1''), (''X-Auth-Token'', ''t0''),
                              (''Accept'', ''*/*'')] \<rparr>]"
    by (simp add: CentralProxy_performProxyRequest_def NewRequest_method_def demoWorld_def
        Header_Set_def canonical_X_Node_ID canonical_X_Auth_Token canonical_Accept Let_def)
  have a: "fst (snd (CentralProxy_run (demoWorld [7]) shape_gcm (demoCentral 2 False)
                       [(1, demoEnv 10, asRequest (demoChunk 1 1 [5] ?hs))]))
           = [\<lparr> req_method = ''POST'', req_url = ''http://echo.test/'', req_body = [5],
                req_header = [(''X-Node-Id'', ''relay-1''), (''X-Auth-Token'', ''t0''),
                              (''Accept'', ''*/*'')] \<rparr>]"
    unfolding CentralProxy_run_def fold_simps id_apply comp_apply CentralProxy_deliver_issued h
      snd_conv fst_conv option.case processCompleteSession_issued c sum.case p
    by simp
  have b: "fst (StarlinkGateway_performProxyRequest (demoWorld [7])
            \<lparr> TrafficRequest.RequestID = ''r1'', TrafficRequest.NodeID = ''relay-1'',
              TrafficRequest.TargetURL = ''http://echo.test/'', TrafficRequest.Method = ''POST'',
              TrafficRequest.Body = [5], TrafficRequest.Headers = ?hs,
              TrafficRequest.ReceivedAt = 1 \<rparr>)
           = [\<lparr> req_method = ''POST'', req_url = ''http://echo.test/'', req_body = [],
                req_header = [(''Accept'', ''*/*'')] \<rparr>]"
    by (simp add: StarlinkGateway_performProxyRequest_def NewRequest_method_def demoWorld_def
        Header_Set_def canonical_Accept Let_def)
  show ?thesis by (intro conjI a b)
qed

section \<open>Gateway: the result of a proxy request\<close>






lemma demo_authenticated:
  "authenticateNode (demoGateway mixing)
     (Header_Get [(''X-Node-Id'', ''relay-1''), (''X-Auth-Token'', demoToken)] ''X-Node-ID'')
     (Header_Get [(''X-Node-Id'', ''relay-1''), (''X-Auth-Token'', demoToken)] ''X-Auth-Token'')"
  by (simp add: authenticateNode_def demoGateway_def Header_Get_def canonical_X_Node_ID
      canonical_X_Auth_Token)

lemma demo_gateway_perform:
  "StarlinkGateway_performProxyRequest (demoWorld answer)
       \<lparr> TrafficRequest.RequestID = proxyReq.RequestID demoProxyReq,
         TrafficRequest.NodeID = nodeID,
         TrafficRequest.TargetURL = proxyReq.TargetURL demoProxyReq,
         TrafficRequest.Method = proxyReq.Method demoProxyReq,
         TrafficRequest.Body = proxyReq.Body demoProxyReq,
         TrafficRequest.Headers = proxyReq.Headers demoProxyReq,
         TrafficRequest.ReceivedAt = now \<rparr>
     = ([\<lparr> req_method = ''GET'', req_url = ''http://echo.test/'', req_body = [],
           req_header = [(''Accept'', ''*/*'')] \<rparr>], Inr [])"
  by (simp add: StarlinkGateway_performProxyRequest_def NewRequest_method_def demoWorld_def
      demoProxyReq_def Header_Set_def canonical_Accept Let_def)




text \<open>
  The body of the answer 200 is not the body the target returned: \<open>performProxyRequest\<close>
  of the gateway never reads the response and returns a new empty slice. Here the target
  answers with the byte 7 and the relay gets an empty body.
\<close>

lemma gateway_reply_body_empty:
  "fst (snd (handleProxyRequest (demoWorld [7]) 1 (demoGateway False)
               \<lparr> px_header = [(''X-Node-Id'', ''relay-1''), (''X-Auth-Token'', demoToken)],
                 px_json = Some demoProxyReq \<rparr>))
     = (200, Bytes [])"
proof -
  have nomix: "\<not> AnonymizationConfig.TrafficMixing
                   (Anonymization (StarlinkGateway.config (demoGateway False)))"
    by (simp add: demoGateway_def)
  show ?thesis
    using demo_authenticated[of False] nomix
    by (simp add: handleProxyRequest_def Let_def demo_gateway_perform)
qed

section \<open>Gateway: authentication and registration\<close>

lemma length_hex_EncodeToString: "length (hex_EncodeToString src) = 2 * length src"
  by (induction src) (simp_all add: hex_EncodeToString_def)

lemma length_generateToken: "length (generateToken rnd) = 64"
  by (simp add: generateToken_def length_hex_EncodeToString)

lemma hex_digit: "n < 16 \<Longrightarrow> ''0123456789abcdef'' ! n \<in> set ''0123456789abcdef''"
  by (rule nth_mem) simp

lemma set_hex_EncodeToString: "set (hex_EncodeToString src) \<subseteq> set ''0123456789abcdef''"
proof -
  have "unat b div 16 < 16" "unat b mod 16 < 16" for b :: byte
  proof -
    have "unat b < 256" using unsigned_less[of b] by simp
    then show "unat b div 16 < 16" by simp
    show "unat b mod 16 < 16" by simp
  qed
  then have "set [''0123456789abcdef'' ! (unat b div 16), ''0123456789abcdef'' ! (unat b mod 16)]
               \<subseteq> set ''0123456789abcdef''" for b :: byte
    using hex_digit[of "unat b div 16"] hex_digit[of "unat b mod 16"] by simp
  then show ?thesis unfolding hex_EncodeToString_def set_concat by (auto simp del: set_simps)
qed

lemma set_generateToken: "set (generateToken rnd) \<subseteq> set ''0123456789abcdef''"
  unfolding generateToken_def by (rule set_hex_EncodeToString)

lemma handleProxyRequest_unauthorized:
  assumes "NodeTokens (StarlinkGateway.config g) (Header_Get (px_header r) ''X-Node-ID'')
             \<noteq> Some (Header_Get (px_header r) ''X-Auth-Token'')"
  shows "handleProxyRequest w now g r = (g, (401, Text ''Unauthorized''), [])"
proof -
  have "\<not> authenticateNode g (Header_Get (px_header r) ''X-Node-ID'')
            (Header_Get (px_header r) ''X-Auth-Token'')"
    using assms
    by (cases "NodeTokens (StarlinkGateway.config g) (Header_Get (px_header r) ''X-Node-ID'')")
      (simp_all add: authenticateNode_def)
  then show ?thesis by (simp add: handleProxyRequest_def Let_def)
qed

lemma handleProxyRequest_authorized:
  assumes "NodeTokens (StarlinkGateway.config g) (Header_Get (px_header r) ''X-Node-ID'')
             = Some (Header_Get (px_header r) ''X-Auth-Token'')"
  shows "fst (fst (snd (handleProxyRequest w now g r))) \<in> {200, 202, 400, 500}"
proof -
  have "authenticateNode g (Header_Get (px_header r) ''X-Node-ID'')
          (Header_Get (px_header r) ''X-Auth-Token'')"
    using assms by (simp add: authenticateNode_def)
  then show ?thesis
    by (simp add: handleProxyRequest_def Let_def split: option.split sum.split prod.split)
qed

lemma handleProxyRequest_config:
  "StarlinkGateway.config (fst (handleProxyRequest w now g r)) = StarlinkGateway.config g"
  by (simp add: handleProxyRequest_def Let_def split: option.split sum.split prod.split)

lemma handleNodeRegistration_refused:
  assumes "reg_method q = ''POST''" "reg_json q = Some d"
    and "regReq.NodeID d \<notin> set (AuthenticatedNodes (StarlinkGateway.config g))"
  shows "handleNodeRegistration rnd g q = (g, (401, Text ''Unauthorized''))"
proof -
  have "\<not> list_ex (\<lambda>nodeID. nodeID = regReq.NodeID d) (AuthenticatedNodes (StarlinkGateway.config g))"
    using assms(3) unfolding list_ex_iff by blast
  then show ?thesis using assms(1,2) by (simp add: handleNodeRegistration_def Let_def)
qed

lemma handleNodeRegistration_accepted:
  assumes "reg_method q = ''POST''" "reg_json q = Some d"
    and "regReq.NodeID d \<in> set (AuthenticatedNodes (StarlinkGateway.config g))"
  shows "handleNodeRegistration rnd g q
     = (g\<lparr>StarlinkGateway.config := (StarlinkGateway.config g)
            \<lparr>NodeTokens := (NodeTokens (StarlinkGateway.config g))
                              (regReq.NodeID d \<mapsto> generateToken rnd)\<rparr>\<rparr>,
        (200, Json [(''node_id'', regReq.NodeID d), (''token'', generateToken rnd)]))"
proof -
  have "list_ex (\<lambda>nodeID. nodeID = regReq.NodeID d) (AuthenticatedNodes (StarlinkGateway.config g))"
    using assms(3) unfolding list_ex_iff by blast
  then show ?thesis using assms(1,2) by (simp add: handleNodeRegistration_def Let_def)
qed

lemma handleNodeRegistration_other:
  assumes "\<And>d. reg_json q = Some d \<Longrightarrow> regReq.NodeID d \<noteq> n"
  shows "NodeTokens (StarlinkGateway.config (fst (handleNodeRegistration rnd g q))) n
           = NodeTokens (StarlinkGateway.config g) n"
proof (cases "reg_json q")
  case None
  then show ?thesis by (simp add: handleNodeRegistration_def)
next
  case (Some d')
  then have "regReq.NodeID d' \<noteq> n" by (rule assms)
  then show ?thesis using Some by (simp add: handleNodeRegistration_def Let_def)
qed

text \<open>
  C6, as the code has it. A request to \<^verbatim>\<open>/proxy\<close> is authenticated on the values
  \<^verbatim>\<open>Header.Get\<close> reads for \<open>X-Node-ID\<close> and \<open>X-Auth-Token\<close>, a missing header reading as the
  empty string: when the token stored for the node read is not the token read (or none
  is stored), the answer is 401, nothing is queued and no outbound request is issued. A
  POST to \<^verbatim>\<open>/register\<close> whose body decodes is answered 401, the gateway unchanged, when its
  node is not in the configured list. When it is, the answer is 200 with the node and a
  token of 64 characters, all of them hexadecimal digits, computed from the random bytes
  of this call alone; the token is stored for the node, and a request to \<^verbatim>\<open>/proxy\<close> that
  bears the node and the token is then not answered 401. The token stays stored for the
  node until the node registers again: handling a request to \<^verbatim>\<open>/proxy\<close> changes no stored
  token, and a request to \<^verbatim>\<open>/register\<close> that does not name the node leaves its token.
\<close>

theorem gateway_authentication:
  "(NodeTokens (StarlinkGateway.config g) (Header_Get (px_header r) ''X-Node-ID'')
        \<noteq> Some (Header_Get (px_header r) ''X-Auth-Token'')
      \<longrightarrow> handleProxyRequest w now g r = (g, (401, Text ''Unauthorized''), []))
   \<and> (reg_method q = ''POST'' \<and> reg_json q = Some d
        \<and> regReq.NodeID d \<notin> set (AuthenticatedNodes (StarlinkGateway.config g))
      \<longrightarrow> handleNodeRegistration rnd g q = (g, (401, Text ''Unauthorized'')))
   \<and> (reg_method q = ''POST'' \<and> reg_json q = Some d
        \<and> regReq.NodeID d \<in> set (AuthenticatedNodes (StarlinkGateway.config g))
      \<longrightarrow> snd (handleNodeRegistration rnd g q)
            = (200, Json [(''node_id'', regReq.NodeID d), (''token'', generateToken rnd)])
        \<and> length (generateToken rnd) = 64
        \<and> set (generateToken rnd) \<subseteq> set ''0123456789abcdef''
        \<and> NodeTokens (StarlinkGateway.config (fst (handleNodeRegistration rnd g q)))
              (regReq.NodeID d) = Some (generateToken rnd)
        \<and> (Header_Get (px_header r') ''X-Node-ID'' = regReq.NodeID d
             \<and> Header_Get (px_header r') ''X-Auth-Token'' = generateToken rnd
            \<longrightarrow> fst (fst (snd (handleProxyRequest w now
                                  (fst (handleNodeRegistration rnd g q)) r'))) \<noteq> 401))
   \<and> NodeTokens (StarlinkGateway.config (fst (handleProxyRequest w now g r)))
       = NodeTokens (StarlinkGateway.config g)
   \<and> ((case reg_json q' of None \<Rightarrow> True | Some d' \<Rightarrow> regReq.NodeID d' \<noteq> n)
      \<longrightarrow> NodeTokens (StarlinkGateway.config (fst (handleNodeRegistration rnd g q'))) n
            = NodeTokens (StarlinkGateway.config g) n)"
proof (intro conjI impI)
  assume "NodeTokens (StarlinkGateway.config g) (Header_Get (px_header r) ''X-Node-ID'')
            \<noteq> Some (Header_Get (px_header r) ''X-Auth-Token'')"
  then show "handleProxyRequest w now g r = (g, (401, Text ''Unauthorized''), [])"
    by (rule handleProxyRequest_unauthorized)
next
  assume a: "reg_method q = ''POST'' \<and> reg_json q = Some d
               \<and> regReq.NodeID d \<notin> set (AuthenticatedNodes (StarlinkGateway.config g))"
  show "handleNodeRegistration rnd g q = (g, (401, Text ''Unauthorized''))"
    by (rule handleNodeRegistration_refused[OF a[THEN conjunct1] a[THEN conjunct2, THEN conjunct1]
          a[THEN conjunct2, THEN conjunct2]])
next
  assume a: "reg_method q = ''POST'' \<and> reg_json q = Some d
               \<and> regReq.NodeID d \<in> set (AuthenticatedNodes (StarlinkGateway.config g))"
  note acc = handleNodeRegistration_accepted[OF a[THEN conjunct1]
      a[THEN conjunct2, THEN conjunct1] a[THEN conjunct2, THEN conjunct2], of rnd]
  show "snd (handleNodeRegistration rnd g q)
          = (200, Json [(''node_id'', regReq.NodeID d), (''token'', generateToken rnd)])"
    unfolding acc by simp
  show "length (generateToken rnd) = 64" by (rule length_generateToken)
  show "set (generateToken rnd) \<subseteq> set ''0123456789abcdef''" by (rule set_generateToken)
  show stored: "NodeTokens (StarlinkGateway.config (fst (handleNodeRegistration rnd g q)))
                  (regReq.NodeID d) = Some (generateToken rnd)"
    unfolding acc by simp
  assume b: "Header_Get (px_header r') ''X-Node-ID'' = regReq.NodeID d
               \<and> Header_Get (px_header r') ''X-Auth-Token'' = generateToken rnd"
  have "NodeTokens (StarlinkGateway.config (fst (handleNodeRegistration rnd g q)))
          (Header_Get (px_header r') ''X-Node-ID'') = Some (Header_Get (px_header r') ''X-Auth-Token'')"
    unfolding b[THEN conjunct1] b[THEN conjunct2] by (rule stored)
  from handleProxyRequest_authorized[OF this, of w now]
  show "fst (fst (snd (handleProxyRequest w now (fst (handleNodeRegistration rnd g q)) r'))) \<noteq> 401"
    by auto
next
  show "NodeTokens (StarlinkGateway.config (fst (handleProxyRequest w now g r)))
          = NodeTokens (StarlinkGateway.config g)"
    unfolding handleProxyRequest_config by (rule refl)
next
  assume c: "case reg_json q' of None \<Rightarrow> True | Some d' \<Rightarrow> regReq.NodeID d' \<noteq> n"
  have "regReq.NodeID d' \<noteq> n" if "reg_json q' = Some d'" for d'
    using c that by simp
  then show "NodeTokens (StarlinkGateway.config (fst (handleNodeRegistration rnd g q'))) n
               = NodeTokens (StarlinkGateway.config g) n"
    by (rule handleNodeRegistration_other)
qed

lemma demoGateway_new:
  "demoGateway mixing
     = NewStarlinkGateway ((StarlinkGateway.config (demoGateway mixing))\<lparr>NodeTokens := Map.empty\<rparr>)
         (\<lambda>i. replicate 32 3)"
  by (simp add: NewStarlinkGateway_def demoGateway_def demoToken_def enumerate_eq_zip)

lemma demo_tokens_differ: "generateToken (replicate 32 1) \<noteq> generateToken (replicate 32 2)"
  by code_simp

lemma demo_register:
  "handleNodeRegistration rnd (demoGateway False)
       \<lparr> reg_method = ''POST'',
         reg_json = Some \<lparr> regReq.NodeID = ''relay-1'', regReq.Secret = ''s'' \<rparr> \<rparr>
     = ((demoGateway False)\<lparr>StarlinkGateway.config :=
           (StarlinkGateway.config (demoGateway False))
             \<lparr>NodeTokens := [''relay-1'' \<mapsto> generateToken rnd]\<rparr>\<rparr>,
        (200, Json [(''node_id'', ''relay-1''), (''token'', generateToken rnd)]))"
  by (simp add: handleNodeRegistration_def demoGateway_def Let_def)

lemma demo_register_again:
  "fst (handleNodeRegistration rnd'
          ((demoGateway False)\<lparr>StarlinkGateway.config :=
              (StarlinkGateway.config (demoGateway False))
                \<lparr>NodeTokens := [''relay-1'' \<mapsto> token]\<rparr>\<rparr>)
          \<lparr> reg_method = ''POST'',
            reg_json = Some \<lparr> regReq.NodeID = ''relay-1'', regReq.Secret = ''s'' \<rparr> \<rparr>)
     = (demoGateway False)\<lparr>StarlinkGateway.config :=
           (StarlinkGateway.config (demoGateway False))
             \<lparr>NodeTokens := [''relay-1'' \<mapsto> generateToken rnd']\<rparr>\<rparr>"
  by (simp add: handleNodeRegistration_def demoGateway_def Let_def)

lemma demo_bearing:
  "Header_Get [(''X-Node-Id'', node), (''X-Auth-Token'', token)] ''X-Node-ID'' = node"
  "Header_Get [(''X-Node-Id'', node), (''X-Auth-Token'', token)] ''X-Auth-Token'' = token"
  by (simp_all add: Header_Get_def canonical_X_Node_ID canonical_X_Auth_Token)

theorem gateway_authentication_witness:
  "NodeTokens (StarlinkGateway.config (demoGateway False)) (Header_Get [] ''X-Node-ID'')
     \<noteq> Some (Header_Get [] ''X-Auth-Token'')
   \<and> handleProxyRequest (demoWorld [7]) 1 (demoGateway False)
         \<lparr> px_header = [], px_json = Some demoProxyReq \<rparr>
       = (demoGateway False, (401, Text ''Unauthorized''), [])
   \<and> ''relay-9'' \<notin> set (AuthenticatedNodes (StarlinkGateway.config (demoGateway False)))
   \<and> handleNodeRegistration (replicate 32 1) (demoGateway False)
         \<lparr> reg_method = ''POST'',
           reg_json = Some \<lparr> regReq.NodeID = ''relay-9'', regReq.Secret = ''s'' \<rparr> \<rparr>
       = (demoGateway False, (401, Text ''Unauthorized''))
   \<and> ''relay-1'' \<in> set (AuthenticatedNodes (StarlinkGateway.config (demoGateway False)))
   \<and> snd (handleNodeRegistration (replicate 32 1) (demoGateway False)
             \<lparr> reg_method = ''POST'',
               reg_json = Some \<lparr> regReq.NodeID = ''relay-1'', regReq.Secret = ''s'' \<rparr> \<rparr>)
       = (200, Json [(''node_id'', ''relay-1''), (''token'', generateToken (replicate 32 1))])
   \<and> NodeTokens (StarlinkGateway.config
                   (fst (handleNodeRegistration (replicate 32 1) (demoGateway False)
                           \<lparr> reg_method = ''POST'',
                             reg_json = Some \<lparr> regReq.NodeID = ''relay-1'',
                                               regReq.Secret = ''s'' \<rparr> \<rparr>))) ''relay-1''
       = Some (generateToken (replicate 32 1))
   \<and> fst (fst (snd (handleProxyRequest (demoWorld [7]) 2
                       (fst (handleNodeRegistration (replicate 32 1) (demoGateway False)
                               \<lparr> reg_method = ''POST'',
                                 reg_json = Some \<lparr> regReq.NodeID = ''relay-1'',
                                                   regReq.Secret = ''s'' \<rparr> \<rparr>))
                       \<lparr> px_header = [(''X-Node-Id'', ''relay-1''),
                                       (''X-Auth-Token'', generateToken (replicate 32 1))],
                         px_json = Some demoProxyReq \<rparr>))) \<noteq> 401
   \<and> NodeTokens (StarlinkGateway.config
                   (fst (handleNodeRegistration (replicate 32 2) (demoGateway False)
                           \<lparr> reg_method = ''POST'',
                             reg_json = Some \<lparr> regReq.NodeID = ''relay-9'',
                                               regReq.Secret = ''s'' \<rparr> \<rparr>))) ''relay-1''
       = Some demoToken"
proof -
  let ?G = "demoGateway False"
  let ?q1 = "\<lparr> reg_method = ''POST'',
               reg_json = Some \<lparr> regReq.NodeID = ''relay-1'', regReq.Secret = ''s'' \<rparr> \<rparr>"
  let ?d1 = "\<lparr> regReq.NodeID = ''relay-1'', regReq.Secret = ''s'' \<rparr>"
  let ?q9 = "\<lparr> reg_method = ''POST'',
               reg_json = Some \<lparr> regReq.NodeID = ''relay-9'', regReq.Secret = ''s'' \<rparr> \<rparr>"
  let ?d9 = "\<lparr> regReq.NodeID = ''relay-9'', regReq.Secret = ''s'' \<rparr>"
  let ?r0 = "\<lparr> px_header = [], px_json = Some demoProxyReq \<rparr>"
  let ?rb = "\<lparr> px_header = [(''X-Node-Id'', ''relay-1''),
                              (''X-Auth-Token'', generateToken (replicate 32 1))],
               px_json = Some demoProxyReq \<rparr>"
  note t1 = gateway_authentication[where g="?G" and r="?r0" and w="demoWorld [7]" and now=1
      and q="?q9" and d="?d9" and rnd="replicate 32 1" and r'="?rb" and q'="?q9"
      and n="''relay-1''"]
  note t2 = gateway_authentication[where g="?G" and r="?r0" and w="demoWorld [7]" and now=2
      and q="?q1" and d="?d1" and rnd="replicate 32 1" and r'="?rb" and q'="?q9"
      and n="''relay-1''"]
  note t3 = gateway_authentication[where g="?G" and r="?r0" and w="demoWorld [7]" and now=2
      and q="?q1" and d="?d1" and rnd="replicate 32 2" and r'="?rb" and q'="?q9"
      and n="''relay-1''"]
  have h1: "NodeTokens (StarlinkGateway.config ?G) (Header_Get [] ''X-Node-ID'')
              \<noteq> Some (Header_Get [] ''X-Auth-Token'')"
    by (simp add: demoGateway_def Header_Get_def)
  have h1': "NodeTokens (StarlinkGateway.config ?G) (Header_Get (px_header ?r0) ''X-Node-ID'')
               \<noteq> Some (Header_Get (px_header ?r0) ''X-Auth-Token'')"
    using h1 by simp
  have c1: "handleProxyRequest (demoWorld [7]) 1 ?G ?r0 = (?G, (401, Text ''Unauthorized''), [])"
    by (rule t1[THEN conjunct1, THEN mp, OF h1'])
  have h2: "''relay-9'' \<notin> set (AuthenticatedNodes (StarlinkGateway.config ?G))"
    by (simp add: demoGateway_def)
  have h2': "reg_method ?q9 = ''POST'' \<and> reg_json ?q9 = Some ?d9
               \<and> regReq.NodeID ?d9 \<notin> set (AuthenticatedNodes (StarlinkGateway.config ?G))"
    using h2 by simp
  have c2: "handleNodeRegistration (replicate 32 1) ?G ?q9 = (?G, (401, Text ''Unauthorized''))"
    by (rule t1[THEN conjunct2, THEN conjunct1, THEN mp, OF h2'])
  have h3: "''relay-1'' \<in> set (AuthenticatedNodes (StarlinkGateway.config ?G))"
    by (simp add: demoGateway_def)
  have h3': "reg_method ?q1 = ''POST'' \<and> reg_json ?q1 = Some ?d1
               \<and> regReq.NodeID ?d1 \<in> set (AuthenticatedNodes (StarlinkGateway.config ?G))"
    using h3 by simp
  note acc = t2[THEN conjunct2, THEN conjunct2, THEN conjunct1, THEN mp, OF h3']
  have c3: "snd (handleNodeRegistration (replicate 32 1) ?G ?q1)
              = (200, Json [(''node_id'', ''relay-1''), (''token'', generateToken (replicate 32 1))])"
    using acc[THEN conjunct1] by simp
  have c4: "NodeTokens (StarlinkGateway.config (fst (handleNodeRegistration (replicate 32 1) ?G ?q1)))
              ''relay-1'' = Some (generateToken (replicate 32 1))"
    using acc[THEN conjunct2, THEN conjunct2, THEN conjunct2, THEN conjunct1] by simp
  have h5: "Header_Get (px_header ?rb) ''X-Node-ID'' = regReq.NodeID ?d1
              \<and> Header_Get (px_header ?rb) ''X-Auth-Token'' = generateToken (replicate 32 1)"
    by (simp add: demo_bearing)
  have c5: "fst (fst (snd (handleProxyRequest (demoWorld [7]) 2
                            (fst (handleNodeRegistration (replicate 32 1) ?G ?q1)) ?rb))) \<noteq> 401"
    by (rule acc[THEN conjunct2, THEN conjunct2, THEN conjunct2, THEN conjunct2, THEN mp, OF h5])
  have h6: "case reg_json ?q9 of None \<Rightarrow> True | Some d' \<Rightarrow> regReq.NodeID d' \<noteq> ''relay-1''"
    by simp
  have c6: "NodeTokens (StarlinkGateway.config (fst (handleNodeRegistration (replicate 32 2) ?G ?q9)))
              ''relay-1'' = Some demoToken"
    unfolding t3[THEN conjunct2, THEN conjunct2, THEN conjunct2, THEN conjunct2, THEN mp, OF h6]
    by (simp add: demoGateway_def)
  show ?thesis by (intro conjI h1 c1 h2 c2 h3 c3 c4 c5 c6)
qed

text \<open>
  C6 as stated fails in two places. A gateway configured with the empty string as a node:
  a request to \<^verbatim>\<open>/proxy\<close> without the header \<open>X-Node-ID\<close> that bears the token of that node
  is authenticated and executed, for the missing header reads as the node id \<open>''''\<close>. And a
  token does not authenticate for ever: when the node registers a second time the stored
  token is replaced, and a request that bears the first token, accepted before, is
  answered 401.
\<close>

theorem gateway_authentication_counterexample:
  "map_of [(''X-Auth-Token'', generateToken (replicate 32 7))]
       (CanonicalMIMEHeaderKey ''X-Node-ID'') = None
   \<and> fst (fst (snd (handleProxyRequest (demoWorld [7]) 1
                      (NewStarlinkGateway
                         ((StarlinkGateway.config (demoGateway False))
                            \<lparr>AuthenticatedNodes := [''''], NodeTokens := Map.empty\<rparr>)
                         (\<lambda>i. replicate 32 7))
                      \<lparr> px_header = [(''X-Auth-Token'', generateToken (replicate 32 7))],
                        px_json = Some demoProxyReq \<rparr>))) = 200
   \<and> fst (fst (snd (handleProxyRequest (demoWorld [7]) 2
                      (fst (handleNodeRegistration (replicate 32 1) (demoGateway False)
                              \<lparr> reg_method = ''POST'',
                                reg_json = Some \<lparr> regReq.NodeID = ''relay-1'',
                                                  regReq.Secret = ''s'' \<rparr> \<rparr>))
                      \<lparr> px_header = [(''X-Node-Id'', ''relay-1''),
                                      (''X-Auth-Token'', generateToken (replicate 32 1))],
                        px_json = Some demoProxyReq \<rparr>))) = 200
   \<and> fst (snd (handleProxyRequest (demoWorld [7]) 4
                 (fst (handleNodeRegistration (replicate 32 2)
                         (fst (handleNodeRegistration (replicate 32 1) (demoGateway False)
                                 \<lparr> reg_method = ''POST'',
                                   reg_json = Some \<lparr> regReq.NodeID = ''relay-1'',
                                                     regReq.Secret = ''s'' \<rparr> \<rparr>))
                         \<lparr> reg_method = ''POST'',
                           reg_json = Some \<lparr> regReq.NodeID = ''relay-1'',
                                             regReq.Secret = ''s'' \<rparr> \<rparr>))
                 \<lparr> px_header = [(''X-Node-Id'', ''relay-1''),
                                 (''X-Auth-Token'', generateToken (replicate 32 1))],
                   px_json = Some demoProxyReq \<rparr>)) = (401, Text ''Unauthorized'')"
proof -
  let ?hs = "[(''X-Node-Id'', ''relay-1''), (''X-Auth-Token'', generateToken (replicate 32 1))]"
  have a: "map_of [(''X-Auth-Token'', generateToken (replicate 32 7))]
             (CanonicalMIMEHeaderKey ''X-Node-ID'') = None"
    by (simp add: canonical_X_Node_ID)
  have g0: "NodeTokens (StarlinkGateway.config
              (NewStarlinkGateway
                 ((StarlinkGateway.config (demoGateway False))
                    \<lparr>AuthenticatedNodes := [''''], NodeTokens := Map.empty\<rparr>)
                 (\<lambda>i. replicate 32 7))) = ['''' \<mapsto> generateToken (replicate 32 7)]"
    by (simp add: NewStarlinkGateway_def enumerate_eq_zip)
  have m0: "\<not> AnonymizationConfig.TrafficMixing (Anonymization (StarlinkGateway.config
              (NewStarlinkGateway
                 ((StarlinkGateway.config (demoGateway False))
                    \<lparr>AuthenticatedNodes := [''''], NodeTokens := Map.empty\<rparr>)
                 (\<lambda>i. replicate 32 7))))"
    by (simp add: NewStarlinkGateway_def demoGateway_def)
  have b: "fst (fst (snd (handleProxyRequest (demoWorld [7]) 1
                      (NewStarlinkGateway
                         ((StarlinkGateway.config (demoGateway False))
                            \<lparr>AuthenticatedNodes := [''''], NodeTokens := Map.empty\<rparr>)
                         (\<lambda>i. replicate 32 7))
                      \<lparr> px_header = [(''X-Auth-Token'', generateToken (replicate 32 7))],
                        px_json = Some demoProxyReq \<rparr>))) = 200"
    using m0
    by (simp add: handleProxyRequest_def authenticateNode_def g0 Header_Get_def
        canonical_X_Node_ID canonical_X_Auth_Token demo_gateway_perform Let_def)
  have c: "fst (fst (snd (handleProxyRequest (demoWorld [7]) 2
                      (fst (handleNodeRegistration (replicate 32 1) (demoGateway False)
                              \<lparr> reg_method = ''POST'',
                                reg_json = Some \<lparr> regReq.NodeID = ''relay-1'',
                                                  regReq.Secret = ''s'' \<rparr> \<rparr>))
                      \<lparr> px_header = ?hs, px_json = Some demoProxyReq \<rparr>))) = 200"
    unfolding demo_register fst_conv
    by (simp add: handleProxyRequest_def authenticateNode_def demo_bearing demoGateway_def
        demo_gateway_perform Let_def)
  have d: "fst (snd (handleProxyRequest (demoWorld [7]) 4
                 (fst (handleNodeRegistration (replicate 32 2)
                         (fst (handleNodeRegistration (replicate 32 1) (demoGateway False)
                                 \<lparr> reg_method = ''POST'',
                                   reg_json = Some \<lparr> regReq.NodeID = ''relay-1'',
                                                     regReq.Secret = ''s'' \<rparr> \<rparr>))
                         \<lparr> reg_method = ''POST'',
                           reg_json = Some \<lparr> regReq.NodeID = ''relay-1'',
                                             regReq.Secret = ''s'' \<rparr> \<rparr>))
                 \<lparr> px_header = ?hs, px_json = Some demoProxyReq \<rparr>))
           = (401, Text ''Unauthorized'')"
    unfolding demo_register fst_conv demo_register_again
    using demo_tokens_differ
    by (simp add: handleProxyRequest_def authenticateNode_def demo_bearing Let_def)
  show ?thesis by (intro conjI a b c d)
qed

end
